theory Spec2Isabelle
  imports Complex_Main
begin

section \<open>Soft Actor-Critic training core (\<^verbatim>\<open>stable_baselines3/sac/sac.py\<close>)\<close>

text \<open>
  Tensors are modelled over the real numbers: a tensor of shape \<^verbatim>\<open>(batch, 1)\<close> is a
  \<^typ>\<open>real list\<close> with one entry per row of the batch, a tuple of such tensors (one per
  critic) is a list of them. Rounding, overflow, infinities and NaN of the floating-point
  tensors are outside the model. The exceptions the Python can raise are values of
  \<open>error\<close>; a function that can raise returns \<open>error + 'a\<close>.
\<close>

datatype error = AssertionError | RuntimeError | TypeError | ZeroDivisionError

subsection \<open>Tensor operations used by the source\<close>

text \<open>
  \<^verbatim>\<open>Tensor.mean()\<close> over all elements. The mean of an empty tensor is NaN in the source
  and 0 here; batches and draws are non-empty wherever a property depends on it.
\<close>

definition mean :: "real list \<Rightarrow> real" where
  "mean xs = sum_list xs / real (length xs)"

text \<open>\<^verbatim>\<open>Tensor.clamp(min, max)\<close> on a scalar.\<close>

definition clamp :: "real \<Rightarrow> real \<Rightarrow> real \<Rightarrow> real" where
  "clamp x lo hi = min (max x lo) hi"

text \<open>\<^verbatim>\<open>F.mse_loss(input, target)\<close> with the default mean reduction.\<close>

definition mse_loss :: "real list \<Rightarrow> real list \<Rightarrow> real" where
  "mse_loss inp target = mean (map2 (\<lambda>x y. (x - y)\<^sup>2) inp target)"

text \<open>
  \<^verbatim>\<open>th.cat(tensors, dim=1)\<close> of a tuple of \<^verbatim>\<open>(batch, 1)\<close> tensors: the result has one row
  per batch entry and one column per tensor. An empty tuple, or tensors of different batch
  sizes, raise \<^verbatim>\<open>RuntimeError\<close>.
\<close>

definition cat_dim1 :: "real list list \<Rightarrow> error + real list list" where
  "cat_dim1 ts =
     (if ts = [] \<or> \<not> list_all (\<lambda>t. length t = length (hd ts)) ts then Inl RuntimeError
      else Inr (map (\<lambda>b. map (\<lambda>t. t ! b) ts) [0..<length (hd ts)]))"

text \<open>
  \<^verbatim>\<open>th.min(x, dim=1, keepdim=True)\<close> (values only) on the rows that \<open>cat_dim1\<close> returns;
  every such row has at least one column.
\<close>

definition row_min :: "real list \<Rightarrow> real" where
  "row_min r = fold min (tl r) (hd r)"

definition min_dim1 :: "real list list \<Rightarrow> real list" where
  "min_dim1 rows = map row_min rows"

subsection \<open>Replay data and collaborators\<close>

text \<open>
  One row of \<^verbatim>\<open>ReplayBufferSamples\<close>: observation, action, next observation, done flag and
  reward. A sampled batch is a list of rows, so that all columns share the batch dimension.
\<close>

datatype ('o, 'a) transition =
  Transition (obs: 'o) (act: 'a) (next_obs: 'o) (done_flag: real) (rew: real)

definition observations :: "('o, 'a) transition list \<Rightarrow> 'o list" where
  "observations rd = map obs rd"

definition actions :: "('o, 'a) transition list \<Rightarrow> 'a list" where
  "actions rd = map act rd"

definition next_observations :: "('o, 'a) transition list \<Rightarrow> 'o list" where
  "next_observations rd = map next_obs rd"

definition dones :: "('o, 'a) transition list \<Rightarrow> real list" where
  "dones rd = map done_flag rd"

definition rewards :: "('o, 'a) transition list \<Rightarrow> real list" where
  "rewards rd = map rew rd"

text \<open>
  The actor, the critic ensemble, the optimizers and \<^verbatim>\<open>polyak_update\<close> are defined in
  other modules (\<^verbatim>\<open>sac/policies.py\<close>, \<^verbatim>\<open>torch.optim\<close>, \<^verbatim>\<open>common/utils.py\<close>) and are
  parameters of the model:
  \<^item> \<open>action_log_prob\<close>: the actor's reparameterised sample for one observation, as a function
    of the actor's parameters \<open>'pa\<close> and of the noise \<open>'z\<close> drawn for that row; it returns
    the action and its log-probability. Resampling (also \<^verbatim>\<open>reset_noise\<close> under gSDE) is a
    fresh noise argument.
  \<^item> \<open>evaluate_actions\<close>: the log-probability of a given action.
  \<^item> \<open>q_networks\<close>: the critic ensemble, one Q-function per critic, each a function of the
    critic's parameters \<open>'pc\<close>; \<^verbatim>\<open>critic.n_critics\<close> is its length.
  \<^item> \<open>actor_optimizer_step\<close>, \<open>critic_optimizer_step\<close>: \<^verbatim>\<open>zero_grad(); loss.backward();
    step()\<close> on the module's own optimizer. The loss is passed as a function of the parameters
    being optimised: whatever the source detaches or computes under \<^verbatim>\<open>no_grad\<close> is a constant
    of that function.
  \<^item> \<open>adam_step\<close>: the same for the scalar parameters \<^verbatim>\<open>log_ent_coef\<close> and \<^verbatim>\<open>log_alpha\<close>,
    each with an Adam optimizer of its own (state \<open>'opt\<close>).
  \<^item> \<open>polyak_update\<close> source target tau, and \<open>load_state_dict\<close> target source.
  \<^item> \<open>update_lr_actor\<close>, \<open>update_lr_critic\<close>, \<open>update_lr\<close>: the effect of
    \<^verbatim>\<open>_update_learning_rate\<close> on the optimizer of the actor, of the critic, and on a scalar
    Adam optimizer.
\<close>

record ('pa, 'pc, 'o, 'a, 'z, 'opt) collab =
  action_log_prob :: "'pa \<Rightarrow> 'z \<Rightarrow> 'o \<Rightarrow> 'a \<times> real"
  evaluate_actions :: "'pa \<Rightarrow> 'o \<Rightarrow> 'a \<Rightarrow> real"
  q_networks :: "('pc \<Rightarrow> 'o \<Rightarrow> 'a \<Rightarrow> real) list"
  actor_optimizer_step :: "'pa \<Rightarrow> ('pa \<Rightarrow> real) \<Rightarrow> 'pa"
  critic_optimizer_step :: "'pc \<Rightarrow> ('pc \<Rightarrow> real) \<Rightarrow> 'pc"
  adam_step :: "'opt \<Rightarrow> real \<Rightarrow> (real \<Rightarrow> real) \<Rightarrow> 'opt \<times> real"
  polyak_update :: "'pc \<Rightarrow> 'pc \<Rightarrow> real \<Rightarrow> 'pc"
  load_state_dict :: "'pc \<Rightarrow> 'pc \<Rightarrow> 'pc"
  update_lr_actor :: "'pa \<Rightarrow> 'pa"
  update_lr_critic :: "'pc \<Rightarrow> 'pc"
  update_lr :: "'opt \<Rightarrow> 'opt"

text \<open>\<^verbatim>\<open>self.actor.action_log_prob(observations)\<close> on a batch; \<open>z b\<close> is the noise of row \<open>b\<close>.\<close>

definition actor_action_log_prob ::
  "('pa, 'pc, 'o, 'a, 'z, 'opt) collab \<Rightarrow> 'pa \<Rightarrow> (nat \<Rightarrow> 'z) \<Rightarrow> 'o list \<Rightarrow> ('a \<times> real) list" where
  "actor_action_log_prob c pa z os = map (\<lambda>b. action_log_prob c pa (z b) (os ! b)) [0..<length os]"

text \<open>\<^verbatim>\<open>self.critic(observations, actions)\<close>: the tuple of the critics' outputs.\<close>

definition critic_forward ::
  "('pa, 'pc, 'o, 'a, 'z, 'opt) collab \<Rightarrow> 'pc \<Rightarrow> 'o list \<Rightarrow> 'a list \<Rightarrow> real list list" where
  "critic_forward c pc os as = map (\<lambda>q. map2 (q pc) os as) (q_networks c)"

definition n_critics :: "('pa, 'pc, 'o, 'a, 'z, 'opt) collab \<Rightarrow> nat" where
  "n_critics c = length (q_networks c)"

subsection \<open>Bootstrap target and critic loss\<close>

text \<open>
  Lines 319-328 of \<^verbatim>\<open>train\<close>: next action and log-probability from the actor, minimum over
  the target critics, entropy term, TD backup. \<open>pct\<close> are the parameters of
  \<^verbatim>\<open>critic_target\<close>.
\<close>

definition train_q_backup ::
  "('pa, 'pc, 'o, 'a, 'z, 'opt) collab \<Rightarrow> 'pa \<Rightarrow> 'pc \<Rightarrow> real \<Rightarrow> real \<Rightarrow> (nat \<Rightarrow> 'z) \<Rightarrow>
   ('o, 'a) transition list \<Rightarrow> error + real list" where
  "train_q_backup c pa pct gamma ent_coef z_next rd =
     (let nxt = actor_action_log_prob c pa z_next (next_observations rd);
          next_actions = map fst nxt;
          next_log_prob = map snd nxt
      in case cat_dim1 (critic_forward c pct (next_observations rd) next_actions) of
           Inl e \<Rightarrow> Inl e
         | Inr targets \<Rightarrow>
             let target_q = min_dim1 targets;
                 target_q = map2 (\<lambda>t lp. t - ent_coef * lp) target_q next_log_prob
             in Inr (map2 (\<lambda>(r, d) t. r + (1 - d) * gamma * t)
                       (zip (rewards rd) (dones rd)) target_q))"

text \<open>Lines 432-441 of \<^verbatim>\<open>pretrain\<close>: the same block, written a second time in the source.\<close>

definition pretrain_q_backup ::
  "('pa, 'pc, 'o, 'a, 'z, 'opt) collab \<Rightarrow> 'pa \<Rightarrow> 'pc \<Rightarrow> real \<Rightarrow> real \<Rightarrow> (nat \<Rightarrow> 'z) \<Rightarrow>
   ('o, 'a) transition list \<Rightarrow> error + real list" where
  "pretrain_q_backup c pa pct gamma ent_coef z_next rd =
     (let nxt = actor_action_log_prob c pa z_next (next_observations rd);
          next_actions = map fst nxt;
          next_log_prob = map snd nxt
      in case cat_dim1 (critic_forward c pct (next_observations rd) next_actions) of
           Inl e \<Rightarrow> Inl e
         | Inr targets \<Rightarrow>
             let target_q = min_dim1 targets;
                 target_q = map2 (\<lambda>t lp. t - ent_coef * lp) target_q next_log_prob
             in Inr (map2 (\<lambda>(r, d) t. r + (1 - d) * gamma * t)
                       (zip (rewards rd) (dones rd)) target_q))"

text \<open>
  Lines 335 and 448:
  \<^verbatim>\<open>0.5 * sum([F.mse_loss(current_q, q_backup) for current_q in current_q_estimates])\<close>.
\<close>

definition critic_td_loss :: "real list list \<Rightarrow> real list \<Rightarrow> real" where
  "critic_td_loss current_q_estimates q_backup =
     0.5 * sum_list (map (\<lambda>current_q. mse_loss current_q q_backup) current_q_estimates)"

text \<open>Line 266: \<^verbatim>\<open>self.log_alpha.clamp(-10.0, 2.0).exp()\<close>.\<close>

definition clipped_alpha :: "real \<Rightarrow> real" where
  "clipped_alpha log_alpha = exp (clamp log_alpha (-10) 2)"

subsection \<open>Conservative loss (\<^verbatim>\<open>_compute_conservative_loss\<close>)\<close>

text \<open>
  \<^verbatim>\<open>x.view(rows, cols, 1)\<close> of a contiguous tensor with \<open>rows * cols\<close> elements: entry
  \<open>(b, i)\<close> is element \<open>b * cols + i\<close> of the flat tensor.
\<close>

definition view2 :: "nat \<Rightarrow> nat \<Rightarrow> 'x list \<Rightarrow> 'x list list" where
  "view2 rows cols flat = map (\<lambda>b. map (\<lambda>i. flat ! (b * cols + i)) [0..<cols]) [0..<rows]"

text \<open>\<^verbatim>\<open>Tensor.max()\<close> over all elements; an empty tensor raises \<^verbatim>\<open>RuntimeError\<close>.\<close>

definition tensor_max :: "real list \<Rightarrow> error + real" where
  "tensor_max xs = (if xs = [] then Inl RuntimeError else Inr (fold max (tl xs) (hd xs)))"

text \<open>
  Lines 216-228: \<open>n\<close> draws from the actor under \<^verbatim>\<open>no_grad\<close>; \<open>zs i b\<close> is the noise of
  draw \<open>i\<close> at row \<open>b\<close>. The result lists, for each draw, the action and log-probability of
  every row.
\<close>

definition policy_draws ::
  "('pa, 'pc, 'o, 'a, 'z, 'opt) collab \<Rightarrow> 'pa \<Rightarrow> (nat \<Rightarrow> nat \<Rightarrow> 'z) \<Rightarrow> nat \<Rightarrow> 'o list \<Rightarrow>
   ('a \<times> real) list list" where
  "policy_draws c pa zs n os = map (\<lambda>i. actor_action_log_prob c pa (zs i) os) [0..<n]"

text \<open>
  Line 225: \<^verbatim>\<open>th.cat(policy_actions, dim=1).view(batch, n, action_dim)\<close>. Concatenating the
  draws along the action dimension puts the \<open>n\<close> actions of a row side by side, so entry
  \<open>(b, i)\<close> is the action of draw \<open>i\<close> at row \<open>b\<close>.
\<close>

definition cat_policy_actions :: "('a \<times> real) list list \<Rightarrow> nat \<Rightarrow> 'a list list" where
  "cat_policy_actions draws batch = map (\<lambda>b. map (\<lambda>d. fst (d ! b)) draws) [0..<batch]"

text \<open>
  Line 228: \<^verbatim>\<open>th.cat(n_log_probs).view(batch, n, 1)\<close>. Here the draws are concatenated
  along the batch dimension (draw after draw) and the flat result is then viewed as
  \<open>batch\<close> rows of \<open>n\<close> entries.
\<close>

definition cat_log_probs :: "('a \<times> real) list list \<Rightarrow> nat \<Rightarrow> nat \<Rightarrow> real list list" where
  "cat_log_probs draws batch n = view2 batch n (concat (map (map snd) draws))"

text \<open>
  Lines 231-235: \<^verbatim>\<open>obs_t.expand(n, ...).transpose(0, 1).reshape(-1, ...)\<close> repeats every
  observation \<open>n\<close> times, row after row.
\<close>

definition flat_obs_t :: "'o list \<Rightarrow> nat \<Rightarrow> 'o list" where
  "flat_obs_t os n = concat (map (replicate n) os)"

text \<open>
  Lines 240-241 and 246-248: the values of the first critic at the policy actions and at the
  uniformly drawn actions, as \<^verbatim>\<open>(batch, n)\<close> tensors. \<open>ra k\<close> is the uniform action drawn
  for flat row \<open>k\<close>. The caller has checked that there is exactly one critic.
\<close>

definition policy_values ::
  "('pa, 'pc, 'o, 'a, 'z, 'opt) collab \<Rightarrow> 'pc \<Rightarrow> 'o list \<Rightarrow> nat \<Rightarrow> 'a list list \<Rightarrow> real list list" where
  "policy_values c pc os n policy_actions =
     view2 (length os) n (critic_forward c pc (flat_obs_t os n) (concat policy_actions) ! 0)"

definition random_values ::
  "('pa, 'pc, 'o, 'a, 'z, 'opt) collab \<Rightarrow> 'pc \<Rightarrow> 'o list \<Rightarrow> nat \<Rightarrow> (nat \<Rightarrow> 'a) \<Rightarrow> real list list" where
  "random_values c pc os n ra =
     view2 (length os) n
       (critic_forward c pc (flat_obs_t os n) (map ra [0..<length os * n]) ! 0)"

text \<open>Line 251: \<^verbatim>\<open>th.max(policy_values.max(), random_values.max()).detach()\<close>.\<close>

definition cql_base :: "real list list \<Rightarrow> real list list \<Rightarrow> error + real" where
  "cql_base pvs rvs =
     (case tensor_max (concat pvs) of
        Inl e \<Rightarrow> Inl e
      | Inr pm \<Rightarrow> (case tensor_max (concat rvs) of Inl e \<Rightarrow> Inl e | Inr rm \<Rightarrow> Inr (max pm rm)))"

text \<open>Lines 254-258 for one row of the batch (the means are over \<^verbatim>\<open>dim=2\<close>, the draws).\<close>

definition logsumexp_row :: "real \<Rightarrow> real list \<Rightarrow> real list \<Rightarrow> real list \<Rightarrow> real" where
  "logsumexp_row base pv lp rv =
     (let policy_meanexp = mean (map2 (\<lambda>v l. exp (v - base - l)) pv lp);
          random_meanexp = mean (map (\<lambda>v. exp (v - base)) rv) / 0.5
      in ln (0.5 * random_meanexp + 0.5 * policy_meanexp + 1 / 10 ^ 10) + base)"

text \<open>
  Lines 254-268 with \<open>base\<close> given. The leading dimension of the tensors is the single
  critic, so \<^verbatim>\<open>sum(dim=0)\<close> is a sum of one term.
\<close>

definition conservative_loss_value ::
  "real \<Rightarrow> real list list \<Rightarrow> real list list \<Rightarrow> real list list \<Rightarrow> real list \<Rightarrow> real \<Rightarrow> real \<Rightarrow> real" where
  "conservative_loss_value base pvs lps rvs data_values alpha_threshold log_alpha =
     (let logsumexp = map (\<lambda>(pv, lp, rv). logsumexp_row base pv lp rv) (zip pvs (zip lps rvs));
          element_wise_loss = map2 (\<lambda>l d. l - d - alpha_threshold) logsumexp data_values
      in mean (map (\<lambda>e. clipped_alpha log_alpha * e) element_wise_loss))"

text \<open>
  The loss as a function of the critic's parameters \<open>pc\<close> and of \<open>log_alpha\<close>, for given
  draws and a given (detached) \<open>base\<close>: this is what \<^verbatim>\<open>backward()\<close> differentiates.
\<close>

definition conservative_objective ::
  "('pa, 'pc, 'o, 'a, 'z, 'opt) collab \<Rightarrow> 'pa \<Rightarrow> (nat \<Rightarrow> nat \<Rightarrow> 'z) \<Rightarrow> (nat \<Rightarrow> 'a) \<Rightarrow> nat \<Rightarrow> real \<Rightarrow>
   ('o, 'a) transition list \<Rightarrow> real \<Rightarrow> 'pc \<Rightarrow> real \<Rightarrow> real" where
  "conservative_objective c pa zs ra n alpha_threshold rd base pc log_alpha =
     (let obs_t = observations rd;
          act_t = actions rd;
          draws = policy_draws c pa zs n obs_t;
          policy_actions = cat_policy_actions draws (length obs_t);
          n_log_probs = cat_log_probs draws (length obs_t) n;
          pvs = policy_values c pc obs_t n policy_actions;
          rvs = random_values c pc obs_t n ra;
          data_values = critic_forward c pc obs_t act_t ! 0
      in conservative_loss_value base pvs n_log_probs rvs data_values alpha_threshold log_alpha)"

text \<open>
  Lines 213-251 of \<^verbatim>\<open>_compute_conservative_loss\<close>, up to \<open>base\<close>. The assertion on the
  ensemble size comes first; \<^verbatim>\<open>th.cat\<close> of an empty list of draws and \<^verbatim>\<open>max()\<close> of an
  empty tensor raise \<^verbatim>\<open>RuntimeError\<close>.
\<close>

definition conservative_base ::
  "('pa, 'pc, 'o, 'a, 'z, 'opt) collab \<Rightarrow> 'pa \<Rightarrow> 'pc \<Rightarrow> nat \<Rightarrow>
   (nat \<Rightarrow> nat \<Rightarrow> 'z) \<Rightarrow> (nat \<Rightarrow> 'a) \<Rightarrow> ('o, 'a) transition list \<Rightarrow> error + real" where
  "conservative_base c pa pc n zs ra rd =
     (if n_critics c \<noteq> 1 then Inl AssertionError
      else if n = 0 then Inl RuntimeError
      else
        let obs_t = observations rd;
            draws = policy_draws c pa zs n obs_t;
            policy_actions = cat_policy_actions draws (length obs_t)
        in cql_base (policy_values c pc obs_t n policy_actions) (random_values c pc obs_t n ra))"

text \<open>\<^verbatim>\<open>_compute_conservative_loss\<close>: the value returned at the current parameters.\<close>

definition compute_conservative_loss ::
  "('pa, 'pc, 'o, 'a, 'z, 'opt) collab \<Rightarrow> 'pa \<Rightarrow> 'pc \<Rightarrow> real \<Rightarrow> real \<Rightarrow> nat \<Rightarrow>
   (nat \<Rightarrow> nat \<Rightarrow> 'z) \<Rightarrow> (nat \<Rightarrow> 'a) \<Rightarrow> ('o, 'a) transition list \<Rightarrow> error + real" where
  "compute_conservative_loss c pa pc log_alpha alpha_threshold n zs ra rd =
     (case conservative_base c pa pc n zs ra rd of
        Inl e \<Rightarrow> Inl e
      | Inr base \<Rightarrow>
          Inr (conservative_objective c pa zs ra n alpha_threshold rd base pc log_alpha))"

subsection \<open>Entropy coefficient and actor loss of \<^verbatim>\<open>train\<close>\<close>

text \<open>
  Lines 303 and 426: \<^verbatim>\<open>-(self.log_ent_coef * (log_prob + self.target_entropy).detach()).mean()\<close>
  as a function of \<^verbatim>\<open>log_ent_coef\<close> (the last argument); the detached factor is a constant
  of that function.
\<close>

definition ent_coef_objective :: "real list \<Rightarrow> real \<Rightarrow> real \<Rightarrow> real" where
  "ent_coef_objective log_prob target_entropy x =
     - mean (map (\<lambda>lp. x * (lp + target_entropy)) log_prob)"

text \<open>
  Lines 350-352 as a function of the actor's parameters (the last argument): the actions and
  log-probabilities of line 294 are reparameterised samples, the critic is the one just
  updated.
\<close>

definition actor_loss ::
  "('pa, 'pc, 'o, 'a, 'z, 'opt) collab \<Rightarrow> 'pc \<Rightarrow> real \<Rightarrow> 'o list \<Rightarrow> (nat \<Rightarrow> 'z) \<Rightarrow> 'pa \<Rightarrow>
   error + real" where
  "actor_loss c pc ent_coef os z pa =
     (let pi = actor_action_log_prob c pa z os;
          actions_pi = map fst pi;
          log_prob = map snd pi
      in case cat_dim1 (critic_forward c pc os actions_pi) of
           Inl e \<Rightarrow> Inl e
         | Inr q_values_pi \<Rightarrow>
             let min_qf_pi = min_dim1 q_values_pi
             in Inr (mean (map2 (\<lambda>lp mq. ent_coef * lp - mq) log_prob min_qf_pi)))"

text \<open>
  The value of a loss that does not raise. Whether a loss raises depends on the shapes only,
  never on the parameters it is differentiated in.
\<close>

definition loss_value :: "error + real \<Rightarrow> real" where
  "loss_value r = (case r of Inl e \<Rightarrow> 0 | Inr v \<Rightarrow> v)"

subsection \<open>Tensors that may be 0-dimensional, for \<^verbatim>\<open>pretrain\<close>\<close>

datatype tensor = Scalar real | Vec "real list"

fun tensor_op :: "(real \<Rightarrow> real \<Rightarrow> real) \<Rightarrow> tensor \<Rightarrow> tensor \<Rightarrow> tensor" where
  "tensor_op f (Scalar x) (Scalar y) = Scalar (f x y)"
| "tensor_op f (Scalar x) (Vec ys) = Vec (map (f x) ys)"
| "tensor_op f (Vec xs) (Scalar y) = Vec (map (\<lambda>x. f x y) xs)"
| "tensor_op f (Vec xs) (Vec ys) = Vec (map2 f xs ys)"

fun tensor_map :: "(real \<Rightarrow> real) \<Rightarrow> tensor \<Rightarrow> tensor" where
  "tensor_map f (Scalar x) = Scalar (f x)"
| "tensor_map f (Vec xs) = Vec (map f xs)"

fun tensor_mean :: "tensor \<Rightarrow> real" where
  "tensor_mean (Scalar x) = x"
| "tensor_mean (Vec xs) = mean xs"

text \<open>
  \<^verbatim>\<open>th.min(*tensors)\<close> as lines 461 and 469 call it on the tuple of critic outputs. With one
  tensor it is \<^verbatim>\<open>th.min(input)\<close>, the minimum of all its elements (a 0-dimensional tensor;
  \<^verbatim>\<open>RuntimeError\<close> on an empty tensor); with two it is \<^verbatim>\<open>th.min(input, other)\<close>, the
  element-wise minimum; with none, or with three or more (a tensor in the place of
  \<^verbatim>\<open>dim\<close>), it raises \<^verbatim>\<open>TypeError\<close>.
\<close>

fun th_min_star :: "real list list \<Rightarrow> error + tensor" where
  "th_min_star [t] = (if t = [] then Inl RuntimeError else Inr (Scalar (fold min (tl t) (hd t))))"
| "th_min_star [t1, t2] = Inr (Vec (map2 min t1 t2))"
| "th_min_star ts = Inl TypeError"

subsection \<open>The algorithm's state\<close>

text \<open>
  The attributes of the \<^verbatim>\<open>SAC\<close> object that \<^verbatim>\<open>train\<close> and \<^verbatim>\<open>pretrain\<close> read or write.
  \<open>actor\<close> and \<open>critic\<close> stand for the module's parameters together with the state of its
  optimizer. \<open>ent_coef_optimizer\<close> is \<open>None\<close> when the entropy coefficient is fixed
  (\<open>ent_coef_tensor\<close>); \<open>log_alpha\<close> and \<open>alpha_optimizer\<close> are only used under
  \<open>use_cql\<close>.
\<close>

record ('pa, 'pc, 'opt) sac =
  actor :: 'pa
  critic :: 'pc
  critic_target :: 'pc
  log_ent_coef :: real
  ent_coef_optimizer :: "'opt option"
  ent_coef_tensor :: real
  log_alpha :: real
  alpha_optimizer :: 'opt
  replay_buffer_ent_coef :: real
  n_updates :: int
  gamma :: real
  tau :: real
  target_entropy :: real
  target_update_interval :: int
  use_cql :: bool
  alpha_threshold :: real
  n_action_samples :: nat

text \<open>
  What one gradient step draws at random: the batch sampled from the replay buffer and the
  noise of every call to the actor (\<open>noise_pi\<close>: line 294/418; \<open>noise_next\<close>: line 321/434;
  \<open>noise_cql\<close>, \<open>random_cql\<close>: the conservative loss added to the critic loss;
  \<open>noise_alpha\<close>, \<open>random_alpha\<close>: its recomputation in \<^verbatim>\<open>update_alpha\<close>; \<open>noise_qf\<close>: the
  draws of lines 464-467 of \<^verbatim>\<open>pretrain\<close>).
\<close>

record ('o, 'a, 'z) step_input =
  replay_data :: "('o, 'a) transition list"
  noise_pi :: "nat \<Rightarrow> 'z"
  noise_next :: "nat \<Rightarrow> 'z"
  noise_cql :: "nat \<Rightarrow> nat \<Rightarrow> 'z"
  random_cql :: "nat \<Rightarrow> 'a"
  noise_alpha :: "nat \<Rightarrow> nat \<Rightarrow> 'z"
  random_alpha :: "nat \<Rightarrow> 'a"
  noise_qf :: "nat \<Rightarrow> nat \<Rightarrow> 'z"

text \<open>
  What one gradient step of \<^verbatim>\<open>train\<close> appends to \<^verbatim>\<open>ent_coef_losses\<close>, \<^verbatim>\<open>ent_coefs\<close>,
  \<^verbatim>\<open>critic_losses\<close> and \<^verbatim>\<open>actor_losses\<close>, and whether it ran line 366
  (\<^verbatim>\<open>polyak_update\<close>).
\<close>

record step_log =
  ent_coef_loss_item :: "real option"
  ent_coef_item :: real
  critic_loss_item :: real
  actor_loss_item :: real
  polyak_updated :: bool

subsection \<open>\<^verbatim>\<open>update_alpha\<close> and \<^verbatim>\<open>train\<close>\<close>

text \<open>
  \<^verbatim>\<open>update_alpha\<close>: the conservative loss is recomputed with fresh draws, and its negation
  is minimised in \<^verbatim>\<open>log_alpha\<close> alone.
\<close>

definition update_alpha ::
  "('pa, 'pc, 'o, 'a, 'z, 'opt) collab \<Rightarrow> ('o, 'a, 'z) step_input \<Rightarrow> ('pa, 'pc, 'opt) sac \<Rightarrow>
   error + ('pa, 'pc, 'opt) sac" where
  "update_alpha c inp s =
     (case conservative_base c (actor s) (critic s) (n_action_samples s) (noise_alpha inp)
             (random_alpha inp) (replay_data inp) of
        Inl e \<Rightarrow> Inl e
      | Inr base \<Rightarrow>
          let (opt, x) = adam_step c (alpha_optimizer s) (log_alpha s)
                 (\<lambda>x. - conservative_objective c (actor s) (noise_alpha inp) (random_alpha inp)
                          (n_action_samples s) (alpha_threshold s) (replay_data inp) base
                          (critic s) x)
          in Inr (s\<lparr>log_alpha := x, alpha_optimizer := opt\<rparr>))"

text \<open>
  The critic loss of lines 332-340 as a function of the critic's parameters: the TD loss
  against the fixed \<open>q_backup\<close>, plus (under \<open>use_cql\<close>) the conservative loss with the
  detached \<open>base\<close>.
\<close>

definition critic_objective ::
  "('pa, 'pc, 'o, 'a, 'z, 'opt) collab \<Rightarrow> ('o, 'a, 'z) step_input \<Rightarrow> ('pa, 'pc, 'opt) sac \<Rightarrow>
   real list \<Rightarrow> real option \<Rightarrow> 'pc \<Rightarrow> real" where
  "critic_objective c inp s q_backup cql pc =
     critic_td_loss
       (critic_forward c pc (observations (replay_data inp)) (actions (replay_data inp))) q_backup
     + (case cql of
          None \<Rightarrow> 0
        | Some base \<Rightarrow>
            conservative_objective c (actor s) (noise_cql inp) (random_cql inp)
              (n_action_samples s) (alpha_threshold s) (replay_data inp) base pc (log_alpha s))"

text \<open>
  Lines 294-317 of the loop of \<^verbatim>\<open>train\<close>: the coefficient used by this step, the
  coefficient loss, the annotation of the replay buffer and, in auto mode, one step of the
  coefficient's optimizer. Returns the coefficient and the loss with the new state.
\<close>

definition train_ent_coef ::
  "('pa, 'pc, 'o, 'a, 'z, 'opt) collab \<Rightarrow> ('o, 'a, 'z) step_input \<Rightarrow> ('pa, 'pc, 'opt) sac \<Rightarrow>
   (real \<times> real option) \<times> ('pa, 'pc, 'opt) sac" where
  "train_ent_coef c inp s =
     (let log_prob = map snd (actor_action_log_prob c (actor s) (noise_pi inp)
                                (observations (replay_data inp)));
          ent_coef_loss =
            (case ent_coef_optimizer s of
               None \<Rightarrow> None
             | Some opt \<Rightarrow> Some (ent_coef_objective log_prob (target_entropy s) (log_ent_coef s)));
          ent_coef =
            (case ent_coef_optimizer s of
               None \<Rightarrow> ent_coef_tensor s
             | Some opt \<Rightarrow> exp (log_ent_coef s));
          s = s\<lparr>replay_buffer_ent_coef := ent_coef\<rparr>
      in ((ent_coef, ent_coef_loss),
          (case ent_coef_optimizer s of
             None \<Rightarrow> s
           | Some opt \<Rightarrow>
               let (opt, x) = adam_step c opt (log_ent_coef s)
                      (ent_coef_objective log_prob (target_entropy s))
               in s\<lparr>log_ent_coef := x, ent_coef_optimizer := Some opt\<rparr>)))"

text \<open>
  Lines 319-345: bootstrap target, critic loss (the value appended to \<^verbatim>\<open>critic_losses\<close> is
  the TD loss, before the conservative loss is added), one step of the critic's optimizer.
\<close>

definition train_critic ::
  "('pa, 'pc, 'o, 'a, 'z, 'opt) collab \<Rightarrow> ('o, 'a, 'z) step_input \<Rightarrow> real \<Rightarrow> ('pa, 'pc, 'opt) sac \<Rightarrow>
   error + real \<times> ('pa, 'pc, 'opt) sac" where
  "train_critic c inp ent_coef s =
     (let rd = replay_data inp
      in case train_q_backup c (actor s) (critic_target s) (gamma s) ent_coef (noise_next inp) rd of
           Inl e \<Rightarrow> Inl e
         | Inr q_backup \<Rightarrow>
             let critic_loss =
                   critic_td_loss (critic_forward c (critic s) (observations rd) (actions rd))
                     q_backup
             in case (if use_cql s
                      then map_sum id Some
                             (conservative_base c (actor s) (critic s) (n_action_samples s)
                                (noise_cql inp) (random_cql inp) rd)
                      else Inr None) of
                  Inl e \<Rightarrow> Inl e
                | Inr cql \<Rightarrow>
                    Inr (critic_loss,
                         s\<lparr>critic := critic_optimizer_step c (critic s)
                                        (critic_objective c inp s q_backup cql)\<rparr>))"

text \<open>Lines 347-358: actor loss and one step of the actor's optimizer.\<close>

definition train_actor ::
  "('pa, 'pc, 'o, 'a, 'z, 'opt) collab \<Rightarrow> ('o, 'a, 'z) step_input \<Rightarrow> real \<Rightarrow> ('pa, 'pc, 'opt) sac \<Rightarrow>
   error + real \<times> ('pa, 'pc, 'opt) sac" where
  "train_actor c inp ent_coef s =
     (let os = observations (replay_data inp)
      in case actor_loss c (critic s) ent_coef os (noise_pi inp) (actor s) of
           Inl e \<Rightarrow> Inl e
         | Inr actor_loss_now \<Rightarrow>
             Inr (actor_loss_now,
                  s\<lparr>actor := actor_optimizer_step c (actor s)
                      (\<lambda>pa. loss_value (actor_loss c (critic s) ent_coef os (noise_pi inp) pa))\<rparr>))"

text \<open>
  Lines 364-366: \<^verbatim>\<open>if gradient_step % self.target_update_interval == 0: polyak_update(...)\<close>.
  The remainder by zero raises \<^verbatim>\<open>ZeroDivisionError\<close>. The flag tells whether
  \<^verbatim>\<open>polyak_update\<close> was called.
\<close>

definition train_target_update ::
  "('pa, 'pc, 'o, 'a, 'z, 'opt) collab \<Rightarrow> nat \<Rightarrow> ('pa, 'pc, 'opt) sac \<Rightarrow>
   error + ('pa, 'pc, 'opt) sac \<times> bool" where
  "train_target_update c gradient_step s =
     (if target_update_interval s = 0 then Inl ZeroDivisionError
      else if int gradient_step mod target_update_interval s = 0
      then Inr (s\<lparr>critic_target := polyak_update c (critic s) (critic_target s) (tau s)\<rparr>, True)
      else Inr (s, False))"

text \<open>One iteration of the loop of \<^verbatim>\<open>train\<close> (lines 286-366), at index \<open>gradient_step\<close>.\<close>

definition train_step ::
  "('pa, 'pc, 'o, 'a, 'z, 'opt) collab \<Rightarrow> nat \<Rightarrow> ('o, 'a, 'z) step_input \<Rightarrow> ('pa, 'pc, 'opt) sac \<Rightarrow>
   error + ('pa, 'pc, 'opt) sac \<times> step_log" where
  "train_step c gradient_step inp s =
     (case train_ent_coef c inp s of
        ((ent_coef, ent_coef_loss), s) \<Rightarrow>
     (case train_critic c inp ent_coef s of
        Inl e \<Rightarrow> Inl e
      | Inr (critic_loss, s) \<Rightarrow>
     (case train_actor c inp ent_coef s of
        Inl e \<Rightarrow> Inl e
      | Inr (actor_loss_now, s) \<Rightarrow>
     (case (if use_cql s then update_alpha c inp s else Inr s) of
        Inl e \<Rightarrow> Inl e
      | Inr s \<Rightarrow>
     (case train_target_update c gradient_step s of
        Inl e \<Rightarrow> Inl e
      | Inr (s, sync) \<Rightarrow>
          Inr (s, \<lparr>ent_coef_loss_item = ent_coef_loss, ent_coef_item = ent_coef,
                    critic_loss_item = critic_loss, actor_loss_item = actor_loss_now,
                    polyak_updated = sync\<rparr>))))))"

text \<open>The loop \<^verbatim>\<open>for gradient_step in range(gradient_steps)\<close>; an exception ends it.\<close>

fun train_steps ::
  "('pa, 'pc, 'o, 'a, 'z, 'opt) collab \<Rightarrow> (nat \<Rightarrow> ('o, 'a, 'z) step_input) \<Rightarrow> nat list \<Rightarrow>
   ('pa, 'pc, 'opt) sac \<Rightarrow> error + ('pa, 'pc, 'opt) sac \<times> step_log list" where
  "train_steps c inps [] s = Inr (s, [])"
| "train_steps c inps (gradient_step # rest) s =
     (case train_step c gradient_step (inps gradient_step) s of
        Inl e \<Rightarrow> Inl e
      | Inr (s1, lg) \<Rightarrow>
          (case train_steps c inps rest s1 of
             Inl e \<Rightarrow> Inl e
           | Inr (s2, lgs) \<Rightarrow> Inr (s2, lg # lgs)))"

text \<open>
  \<^verbatim>\<open>train\<close>: the learning rates of the optimizers in use are updated (lines 272-280), the
  loop runs, \<^verbatim>\<open>_n_updates\<close> is increased. \<open>inps i\<close> is what step \<open>i\<close> draws at random. The
  records sent to the logger are the means of the returned lists.
\<close>

definition train ::
  "('pa, 'pc, 'o, 'a, 'z, 'opt) collab \<Rightarrow> int \<Rightarrow> (nat \<Rightarrow> ('o, 'a, 'z) step_input) \<Rightarrow>
   ('pa, 'pc, 'opt) sac \<Rightarrow> error + ('pa, 'pc, 'opt) sac \<times> step_log list" where
  "train c gradient_steps inps s =
     (let s = s\<lparr>actor := update_lr_actor c (actor s),
                critic := update_lr_critic c (critic s),
                ent_coef_optimizer := map_option (update_lr c) (ent_coef_optimizer s),
                alpha_optimizer :=
                  (if use_cql s then update_lr c (alpha_optimizer s) else alpha_optimizer s)\<rparr>
      in case train_steps c inps [0..<nat gradient_steps] s of
           Inl e \<Rightarrow> Inl e
         | Inr (s, logs) \<Rightarrow> Inr (s\<lparr>n_updates := n_updates s + gradient_steps\<rparr>, logs))"

subsection \<open>\<^verbatim>\<open>pretrain\<close>\<close>

text \<open>The keyword arguments of \<^verbatim>\<open>pretrain\<close> other than the number of steps and the batch size.\<close>

record pretrain_args =
  pretrain_n_action_samples :: nat
  pretrain_target_update_interval :: int
  strategy :: string
  reduce :: string
  exp_temperature :: real
  off_policy_update_freq :: int

text \<open>
  Lines 463-479: the loop over the \<open>n\<close> draws, \<open>qf_agg\<close> being \<open>None\<close> before the first.
  \<open>zq j b\<close> is the noise of draw \<open>j\<close> at row \<open>b\<close>.
\<close>

fun qf_aggregate ::
  "('pa, 'pc, 'o, 'a, 'z, 'opt) collab \<Rightarrow> 'pa \<Rightarrow> 'pc \<Rightarrow> string \<Rightarrow> nat \<Rightarrow> (nat \<Rightarrow> nat \<Rightarrow> 'z) \<Rightarrow>
   ('o, 'a) transition list \<Rightarrow> nat list \<Rightarrow> tensor option \<Rightarrow> error + tensor option" where
  "qf_aggregate c pa pc red n zq rd [] qf_agg = Inr qf_agg"
| "qf_aggregate c pa pc red n zq rd (j # js) qf_agg =
     (let actions_pi = map fst (actor_action_log_prob c pa (zq j) (observations rd))
      in case th_min_star (critic_forward c pc (observations rd) actions_pi) of
           Inl e \<Rightarrow> Inl e
         | Inr qf_pi \<Rightarrow>
             qf_aggregate c pa pc red n zq rd js
               (Some (case qf_agg of
                        None \<Rightarrow>
                          if red = ''max'' then qf_pi
                          else tensor_map (\<lambda>x. x / real n) qf_pi
                      | Some agg \<Rightarrow>
                          if red = ''max'' then tensor_op max qf_pi agg
                          else tensor_op (+) agg (tensor_map (\<lambda>x. x / real n) qf_pi))))"

text \<open>
  Lines 460-481: \<^verbatim>\<open>advantage = qf_buffer - qf_agg\<close>. With no draw at all \<open>qf_agg\<close> is still
  \<open>None\<close> and the subtraction raises \<^verbatim>\<open>TypeError\<close>.
\<close>

definition pretrain_advantage ::
  "('pa, 'pc, 'o, 'a, 'z, 'opt) collab \<Rightarrow> 'pa \<Rightarrow> 'pc \<Rightarrow> pretrain_args \<Rightarrow> (nat \<Rightarrow> nat \<Rightarrow> 'z) \<Rightarrow>
   ('o, 'a) transition list \<Rightarrow> error + tensor" where
  "pretrain_advantage c pa pc args zq rd =
     (case th_min_star (critic_forward c pc (observations rd) (actions rd)) of
        Inl e \<Rightarrow> Inl e
      | Inr qf_buffer \<Rightarrow>
          (case qf_aggregate c pa pc (reduce args) (pretrain_n_action_samples args) zq rd
                  [0..<pretrain_n_action_samples args] None of
             Inl e \<Rightarrow> Inl e
           | Inr None \<Rightarrow> Inl TypeError
           | Inr (Some qf_agg) \<Rightarrow> Inr (tensor_op (-) qf_buffer qf_agg)))"

text \<open>
  Lines 456-488: the regression weight. Under \<^verbatim>\<open>"bc"\<close> it is the Python integer 1; the
  boolean tensor \<^verbatim>\<open>advantage > 0\<close> counts as 1 and 0 in the product of line 495.
\<close>

definition pretrain_weight ::
  "('pa, 'pc, 'o, 'a, 'z, 'opt) collab \<Rightarrow> 'pa \<Rightarrow> 'pc \<Rightarrow> pretrain_args \<Rightarrow> (nat \<Rightarrow> nat \<Rightarrow> 'z) \<Rightarrow>
   ('o, 'a) transition list \<Rightarrow> error + tensor" where
  "pretrain_weight c pa pc args zq rd =
     (if strategy args = ''bc'' then Inr (Scalar 1)
      else
        case pretrain_advantage c pa pc args zq rd of
          Inl e \<Rightarrow> Inl e
        | Inr advantage \<Rightarrow>
            if strategy args = ''binary''
            then Inr (tensor_map (\<lambda>a. if a > 0 then 1 else 0) advantage)
            else Inr (tensor_map (\<lambda>a. clamp (exp (a / exp_temperature args)) 0 20) advantage))"

text \<open>
  Lines 491-495 as a function of the actor's parameters (the last argument):
  \<^verbatim>\<open>(-log_prob * weight).mean()\<close> with the log-probabilities of the batch's own actions.
\<close>

definition pretrain_actor_loss ::
  "('pa, 'pc, 'o, 'a, 'z, 'opt) collab \<Rightarrow> tensor \<Rightarrow> ('o, 'a) transition list \<Rightarrow> 'pa \<Rightarrow> real" where
  "pretrain_actor_loss c weight rd pa =
     (let log_prob = map2 (evaluate_actions c pa) (observations rd) (actions rd)
      in tensor_mean (tensor_op (*) (Vec (map uminus log_prob)) weight))"

text \<open>
  One iteration of the loop of \<^verbatim>\<open>pretrain\<close> (lines 406-506). A delegated step runs
  \<^verbatim>\<open>self.train(gradient_steps=1, ...)\<close> and continues; any other step returns the critic and
  actor losses it appends to \<^verbatim>\<open>critic_losses\<close> and \<^verbatim>\<open>actor_losses\<close>. The entropy-coefficient
  loss of line 426 is computed and not used.
\<close>

definition pretrain_step ::
  "('pa, 'pc, 'o, 'a, 'z, 'opt) collab \<Rightarrow> pretrain_args \<Rightarrow> nat \<Rightarrow> ('o, 'a, 'z) step_input \<Rightarrow>
   ('pa, 'pc, 'opt) sac \<Rightarrow> error + ('pa, 'pc, 'opt) sac \<times> (real \<times> real) option" where
  "pretrain_step c args gradient_step inp s =
     (if 0 < off_policy_update_freq args \<and> int gradient_step mod off_policy_update_freq args = 0
      then (case train c 1 (\<lambda>i. inp) s of Inl e \<Rightarrow> Inl e | Inr (s, logs) \<Rightarrow> Inr (s, None))
      else
      let rd = replay_data inp;
          log_prob = map snd (actor_action_log_prob c (actor s) (noise_pi inp) (observations rd));
          ent_coef_loss =
            (case ent_coef_optimizer s of
               None \<Rightarrow> None
             | Some opt \<Rightarrow> Some (ent_coef_objective log_prob (target_entropy s) (log_ent_coef s)));
          ent_coef =
            (case ent_coef_optimizer s of
               None \<Rightarrow> ent_coef_tensor s
             | Some opt \<Rightarrow> exp (log_ent_coef s));
          s = s\<lparr>replay_buffer_ent_coef := ent_coef\<rparr>
      in case pretrain_q_backup c (actor s) (critic_target s) (gamma s) ent_coef (noise_next inp) rd of
           Inl e \<Rightarrow> Inl e
         | Inr q_backup \<Rightarrow>
      let critic_loss =
            critic_td_loss (critic_forward c (critic s) (observations rd) (actions rd)) q_backup;
          s = s\<lparr>critic := critic_optimizer_step c (critic s)
                   (\<lambda>pc. critic_td_loss
                      (critic_forward c pc (observations rd) (actions rd)) q_backup)\<rparr>
      in case pretrain_weight c (actor s) (critic s) args (noise_qf inp) rd of
           Inl e \<Rightarrow> Inl e
         | Inr weight \<Rightarrow>
      let actor_loss_now = pretrain_actor_loss c weight rd (actor s);
          s = s\<lparr>actor := actor_optimizer_step c (actor s) (pretrain_actor_loss c weight rd)\<rparr>
      in if pretrain_target_update_interval args = 0 then Inl ZeroDivisionError
         else
           Inr (if int gradient_step mod pretrain_target_update_interval args = 0
                then s\<lparr>critic_target := load_state_dict c (critic_target s) (critic s)\<rparr>
                else s,
                Some (critic_loss, actor_loss_now)))"

fun pretrain_steps ::
  "('pa, 'pc, 'o, 'a, 'z, 'opt) collab \<Rightarrow> pretrain_args \<Rightarrow> (nat \<Rightarrow> ('o, 'a, 'z) step_input) \<Rightarrow>
   nat list \<Rightarrow> ('pa, 'pc, 'opt) sac \<Rightarrow> error + ('pa, 'pc, 'opt) sac \<times> (real \<times> real) option list" where
  "pretrain_steps c args inps [] s = Inr (s, [])"
| "pretrain_steps c args inps (gradient_step # rest) s =
     (case pretrain_step c args gradient_step (inps gradient_step) s of
        Inl e \<Rightarrow> Inl e
      | Inr (s1, lg) \<Rightarrow>
          (case pretrain_steps c args inps rest s1 of
             Inl e \<Rightarrow> Inl e
           | Inr (s2, lgs) \<Rightarrow> Inr (s2, lg # lgs)))"

text \<open>
  \<^verbatim>\<open>pretrain\<close>: the learning rates of the actor's, the critic's and (if any) the entropy
  coefficient's optimizer are updated (lines 395-400), then the loop runs.
\<close>

definition pretrain ::
  "('pa, 'pc, 'o, 'a, 'z, 'opt) collab \<Rightarrow> pretrain_args \<Rightarrow> int \<Rightarrow>
   (nat \<Rightarrow> ('o, 'a, 'z) step_input) \<Rightarrow> ('pa, 'pc, 'opt) sac \<Rightarrow>
   error + ('pa, 'pc, 'opt) sac \<times> (real \<times> real) option list" where
  "pretrain c args gradient_steps inps s =
     pretrain_steps c args inps [0..<nat gradient_steps]
       (s\<lparr>actor := update_lr_actor c (actor s),
          critic := update_lr_critic c (critic s),
          ent_coef_optimizer := map_option (update_lr c) (ent_coef_optimizer s)\<rparr>)"

subsection \<open>Concrete instances\<close>

text \<open>
  Stub collaborators over one-point types, used to evaluate the definitions on concrete
  inputs: critic number \<open>i\<close> returns the constant \<open>vs ! i\<close>, the actor returns
  log-probability \<open>lp\<close>, the optimizers leave their parameters unchanged.
\<close>

definition stub_collab :: "real list \<Rightarrow> real \<Rightarrow> (unit, unit, unit, unit, unit, unit) collab" where
  "stub_collab vs lp =
     \<lparr>action_log_prob = (\<lambda>pa z ob. ((), lp)),
      evaluate_actions = (\<lambda>pa ob a. lp),
      q_networks = map (\<lambda>v pc ob a. v) vs,
      actor_optimizer_step = (\<lambda>pa loss. pa),
      critic_optimizer_step = (\<lambda>pc loss. pc),
      adam_step = (\<lambda>st x loss. (st, x)),
      polyak_update = (\<lambda>src tgt tau. tgt),
      load_state_dict = (\<lambda>tgt src. src),
      update_lr_actor = (\<lambda>pa. pa),
      update_lr_critic = (\<lambda>pc. pc),
      update_lr = (\<lambda>st. st)\<rparr>"

definition no_noise :: "nat \<Rightarrow> unit" where
  "no_noise b = ()"

definition no_noise2 :: "nat \<Rightarrow> nat \<Rightarrow> unit" where
  "no_noise2 i b = ()"

text \<open>The batch of the critic-loss scenario: rewards \<open>[1, 0]\<close>, dones \<open>[0, 1]\<close>.\<close>

definition scenario_batch :: "(unit, unit) transition list" where
  "scenario_batch = [Transition () () () 0 1, Transition () () () 1 0]"

text \<open>
  Stub collaborators that count: the critic's parameters count its optimizer steps, the
  target's parameters count the calls of \<^verbatim>\<open>polyak_update\<close>, and the scalar optimizer lowers
  its parameter by 1 at every step.
\<close>

definition counting_collab :: "real list \<Rightarrow> real \<Rightarrow> (unit, nat, unit, unit, unit, nat) collab" where
  "counting_collab vs lp =
     \<lparr>action_log_prob = (\<lambda>pa z ob. ((), lp)),
      evaluate_actions = (\<lambda>pa ob a. lp),
      q_networks = map (\<lambda>v pc ob a. v) vs,
      actor_optimizer_step = (\<lambda>pa loss. pa),
      critic_optimizer_step = (\<lambda>pc loss. Suc pc),
      adam_step = (\<lambda>st x loss. (Suc st, x - 1)),
      polyak_update = (\<lambda>src tgt tau. Suc tgt),
      load_state_dict = (\<lambda>tgt src. src),
      update_lr_actor = (\<lambda>pa. pa),
      update_lr_critic = (\<lambda>pc. pc),
      update_lr = (\<lambda>st. st)\<rparr>"

definition stub_state :: "(unit, nat, nat) sac" where
  "stub_state =
     \<lparr>actor = (), critic = 0, critic_target = 0, log_ent_coef = 0,
      ent_coef_optimizer = Some 0, ent_coef_tensor = 1/5, log_alpha = 0, alpha_optimizer = 0,
      replay_buffer_ent_coef = 0, n_updates = 0, gamma = 99/100, tau = 1/200,
      target_entropy = - 1, target_update_interval = 2, use_cql = False,
      alpha_threshold = 10, n_action_samples = 2\<rparr>"

definition stub_input :: "(unit, unit, unit) step_input" where
  "stub_input =
     \<lparr>replay_data = scenario_batch, noise_pi = no_noise, noise_next = no_noise,
      noise_cql = no_noise2, random_cql = no_noise, noise_alpha = no_noise2,
      random_alpha = no_noise, noise_qf = no_noise2\<rparr>"

definition stub_inputs :: "nat \<Rightarrow> (unit, unit, unit) step_input" where
  "stub_inputs i = stub_input"

definition stub_args :: pretrain_args where
  "stub_args =
     \<lparr>pretrain_n_action_samples = 4, pretrain_target_update_interval = 100,
      strategy = ''binary'', reduce = ''mean'', exp_temperature = 1,
      off_policy_update_freq = - 1\<rparr>"



section \<open>Properties\<close>

subsection \<open>Auxiliary facts\<close>

lemma row_min_Min: "r \<noteq> [] \<Longrightarrow> row_min r = Min (set r)"
proof (cases r)
  case Nil
  assume "r \<noteq> []"
  with Nil show ?thesis by simp
next
  case (Cons x xs)
  then show ?thesis
    using Min.set_eq_fold [of x xs] by (simp add: row_min_def)
qed

text \<open>
  C4. For every value \<open>x\<close> of \<^verbatim>\<open>log_alpha\<close> the multiplier \<open>clipped_alpha\<close> lies in
  \<open>[exp (-10), exp 2]\<close>, so it is strictly positive, and clamping \<open>x\<close> to
  \<open>[-10, 2]\<close> before exponentiation gives the same value as clamping \<open>exp x\<close> to
  \<open>[exp (-10), exp 2]\<close>.
\<close>

theorem clipped_alpha_range:
  "exp (-10) \<le> clipped_alpha x \<and> clipped_alpha x \<le> exp 2
   \<and> 0 < clipped_alpha x
   \<and> clipped_alpha x = clamp (exp x) (exp (-10)) (exp 2)
   \<and> clipped_alpha (-1000) = exp (-10) \<and> clipped_alpha 1000 = exp 2"
  by (simp add: clipped_alpha_def clamp_def min_def max_def)

lemma cat_dim1_forward:
  assumes "q_networks c \<noteq> []" "length os = length as"
  shows "cat_dim1 (critic_forward c pc os as)
         = Inr (map (\<lambda>b. map (\<lambda>q. q pc (os ! b) (as ! b)) (q_networks c)) [0..<length os])"
  using assms
  by (auto simp: cat_dim1_def critic_forward_def list_all_iff hd_map)

lemma map_upt_2: "map f [0..<2] = [f 0, f 1]"
  by (simp add: numeral_2_eq_2)

subsection \<open>Bootstrap target\<close>



subsection \<open>Critic loss scenario\<close>

lemma scenario_q_backup:
  assumes "q_networks c \<noteq> []" "\<forall>q\<in>set (q_networks c). \<forall>p ob a. q p ob a = 5"
  shows "train_q_backup c pa pct (99/100) 0 z
           [Transition o1 a1 o1' 0 1, Transition o2 a2 o2' 1 0] = Inr [119/20, 0]"
proof -
  have m: "Min ((\<lambda>q. q pct x y) ` set (q_networks c)) = 5" for x y
  proof -
    have "(\<lambda>q. q pct x y) ` set (q_networks c) = {5}"
      using assms by (cases "q_networks c") auto
    then show ?thesis by simp
  qed
  have r: "row_min (map (\<lambda>q. q pct x y) (q_networks c)) = 5" for x y
    using assms(1) m [of x y] by (simp add: row_min_Min)
  show ?thesis
    using assms(1)
    by (simp add: train_q_backup_def Let_def cat_dim1_forward actor_action_log_prob_def
        next_observations_def rewards_def dones_def min_dim1_def map_upt_2 r)
qed

lemma scenario_loss:
  assumes "\<forall>q\<in>set (q_networks c). \<forall>p ob a. q p ob a = 5"
  shows "critic_td_loss
           (critic_forward c pc (observations [Transition o1 a1 o1' 0 1, Transition o2 a2 o2' 1 0])
              (actions [Transition o1 a1 o1' 0 1, Transition o2 a2 o2' 1 0])) [119/20, 0]
         = 0.5 * real (n_critics c) * mse_loss [5, 5] [119/20, 0]"
proof -
  have "(\<Sum>q\<leftarrow>q_networks c. mse_loss [q pc o1 a1, q pc o2 a2] [119/20, 0])
        = (\<Sum>q\<leftarrow>q_networks c. mse_loss [5, 5] [119/20, 0])"
    using assms by (intro arg_cong [where f = sum_list] map_cong) auto
  also have "\<dots> = real (length (q_networks c)) * mse_loss [5, 5] [119/20, 0]"
    by (simp add: sum_list_triv)
  finally show ?thesis
    by (simp add: critic_td_loss_def critic_forward_def observations_def actions_def o_def
        n_critics_def)
qed

lemma scenario_mse: "mse_loss [5, 5] [119/20, 0] = 10361/800"
  by (simp add: mse_loss_def mean_def power2_eq_square)

text \<open>
  C6, as stated, at a single critic (the ensemble size the conservative loss requires): the
  targets are \<open>[5.95, 0]\<close>, the critic loss is \<open>0.5 * MSE = 6.475625\<close>, not the
  mean squared error \<open>12.95125\<close>.
\<close>

theorem critic_loss_scenario_one_critic:
  "train_q_backup (stub_collab [5] 1) () () (99/100) 0 no_noise scenario_batch = Inr [119/20, 0]
   \<and> critic_td_loss
        (critic_forward (stub_collab [5] 1) () (observations scenario_batch) (actions scenario_batch))
        [119/20, 0] = 10361/1600
   \<and> mse_loss [5, 5] [119/20, 0] = 10361/800
   \<and> critic_td_loss
        (critic_forward (stub_collab [5] 1) () (observations scenario_batch) (actions scenario_batch))
        [119/20, 0] \<noteq> mse_loss [5, 5] [119/20, 0]"
  by (simp add: train_q_backup_def Let_def cat_dim1_def critic_forward_def
      actor_action_log_prob_def next_observations_def rewards_def dones_def min_dim1_def
      map_upt_2 row_min_def stub_collab_def scenario_batch_def critic_td_loss_def
      observations_def actions_def mse_loss_def mean_def power2_eq_square)

text \<open>
  C6, amended. For rewards \<open>[1, 0]\<close>, dones \<open>[0, 1]\<close>, \<open>gamma = 0.99\<close>, entropy
  coefficient 0 and an ensemble of critics that all return 5, the bootstrap targets are
  \<open>[5.95, 0]\<close> and the critic loss is \<open>0.5 * n_critics * MSE([5, 5], [5.95, 0])\<close>
  with \<open>MSE = 12.95125\<close>; it equals the mean squared error exactly when there are two
  critics.
\<close>

theorem critic_loss_scenario:
  assumes "q_networks c \<noteq> []" and "\<forall>q\<in>set (q_networks c). \<forall>p ob a. q p ob a = 5"
    and "rd = [Transition o1 a1 o1' 0 1, Transition o2 a2 o2' 1 0]"
  shows "train_q_backup c pa pct (99/100) 0 z rd = Inr [119/20, 0]
         \<and> critic_td_loss (critic_forward c pc (observations rd) (actions rd)) [119/20, 0]
             = 0.5 * real (n_critics c) * mse_loss [5, 5] [119/20, 0]
         \<and> mse_loss [5, 5] [119/20, 0] = 10361/800
         \<and> (critic_td_loss (critic_forward c pc (observations rd) (actions rd)) [119/20, 0]
              = mse_loss [5, 5] [119/20, 0] \<longleftrightarrow> n_critics c = 2)"
proof -
  have l: "critic_td_loss (critic_forward c pc (observations rd) (actions rd)) [119/20, 0]
           = 0.5 * real (n_critics c) * mse_loss [5, 5] [119/20, 0]"
    unfolding assms(3) by (rule scenario_loss [OF assms(2)])
  have q: "train_q_backup c pa pct (99/100) 0 z rd = Inr [119/20, 0]"
    unfolding assms(3) by (rule scenario_q_backup [OF assms(1,2)])
  have "critic_td_loss (critic_forward c pc (observations rd) (actions rd)) [119/20, 0]
        = real (n_critics c) * (10361/1600)"
    using l by (simp add: scenario_mse)
  moreover have "(real (n_critics c) * (10361/1600) = 10361/800) \<longleftrightarrow> n_critics c = 2"
  proof -
    have "(real (n_critics c) * (10361/1600) = 10361/800) \<longleftrightarrow> real (n_critics c) = 2"
      by (simp add: field_simps)
    then show ?thesis by simp
  qed
  ultimately have e: "critic_td_loss (critic_forward c pc (observations rd) (actions rd)) [119/20, 0]
              = mse_loss [5, 5] [119/20, 0] \<longleftrightarrow> n_critics c = 2"
    by (simp only: scenario_mse)
  from q l scenario_mse e show ?thesis
    by (intro conjI)
qed

text \<open>The theorem at the default ensemble of two critics.\<close>

theorem critic_loss_scenario_witness:
  "q_networks (stub_collab [5, 5] 1) \<noteq> []
   \<and> q_networks (stub_collab [5, 5] 1) = [\<lambda>p ob a. 5, \<lambda>p ob a. 5]
   \<and> train_q_backup (stub_collab [5, 5] 1) () () (99/100) 0 no_noise scenario_batch
       = Inr [119/20, 0]
   \<and> critic_td_loss
        (critic_forward (stub_collab [5, 5] 1) () (observations scenario_batch)
           (actions scenario_batch)) [119/20, 0] = 10361/800"
  using critic_loss_scenario [of "stub_collab [5, 5] 1" scenario_batch "()" "()" "()" "()" "()" "()"
      "()" "()" no_noise "()"]
  by (simp add: stub_collab_def scenario_batch_def n_critics_def)

subsection \<open>Conservative loss\<close>

lemma concat_nth_uniform:
  assumes "\<forall>xs\<in>set xss. length xs = n" "b < length xss" "i < n"
  shows "concat xss ! (b * n + i) = xss ! b ! i"
  using assms
proof (induction xss arbitrary: b)
  case Nil then show ?case by simp
next
  case (Cons xs xss)
  show ?case
  proof (cases b)
    case 0
    with Cons.prems show ?thesis by (simp add: nth_append)
  next
    case (Suc b')
    with Cons.prems have "concat xss ! (b' * n + i) = xss ! b' ! i"
      by (intro Cons.IH) auto
    with Suc Cons.prems show ?thesis by (simp add: nth_append add.assoc)
  qed
qed

lemma length_concat_uniform:
  assumes "\<forall>xs\<in>set xss. length xs = n"
  shows "length (concat xss) = length xss * n"
  using assms by (induction xss) auto

lemma flat_index_less: "b < B \<Longrightarrow> i < n \<Longrightarrow> b * n + i < B * (n::nat)"
proof -
  assume a: "b < B" "i < n"
  then have "b * n + i < b * n + n" by simp
  also have "\<dots> = Suc b * n" by simp
  also have "\<dots> \<le> B * n" using a(1) by (intro mult_le_mono1) simp
  finally show ?thesis .
qed

lemma flat_obs_t_nth: "b < length os \<Longrightarrow> i < n \<Longrightarrow> flat_obs_t os n ! (b * n + i) = os ! b"
  unfolding flat_obs_t_def
  by (subst concat_nth_uniform [where n = n]) auto

lemma length_flat_obs_t: "length (flat_obs_t os n) = length os * n"
  unfolding flat_obs_t_def by (subst length_concat_uniform [where n = n]) auto


lemma policy_draws_nth:
  "i < n \<Longrightarrow> b < length os \<Longrightarrow>
   policy_draws c pa zs n os ! i ! b = action_log_prob c pa (zs i b) (os ! b)"
  by (simp add: policy_draws_def actor_action_log_prob_def)

lemma policy_draws_length:
  "length (policy_draws c pa zs n os) = n"
  "\<forall>d\<in>set (policy_draws c pa zs n os). length d = length os"
  by (auto simp: policy_draws_def actor_action_log_prob_def)

lemma cat_policy_actions_eq:
  "cat_policy_actions (policy_draws c pa zs n os) (length os)
   = map (\<lambda>b. map (\<lambda>i. fst (action_log_prob c pa (zs i b) (os ! b))) [0..<n]) [0..<length os]"
  by (simp add: cat_policy_actions_def policy_draws_def actor_action_log_prob_def)

lemma cat_log_probs_eq:
  "cat_log_probs (policy_draws c pa zs n os) (length os) n
   = map (\<lambda>b. map (\<lambda>i. snd (action_log_prob c pa
                         (zs ((b * n + i) div length os) ((b * n + i) mod length os))
                         (os ! ((b * n + i) mod length os)))) [0..<n]) [0..<length os]"
proof -
  have "concat (map (map snd) (policy_draws c pa zs n os)) ! (b * n + i)
        = snd (action_log_prob c pa (zs ((b * n + i) div length os) ((b * n + i) mod length os))
                 (os ! ((b * n + i) mod length os)))"
    if "b < length os" "i < n" for b i
  proof -
    let ?k = "b * n + i" and ?B = "length os"
    have k: "?k < n * ?B" using flat_index_less [OF that] by (simp add: mult.commute)
    then have d: "?k div ?B < n" by (rule less_mult_imp_div_less)
    have "0 < ?B" using that(1) by (cases os) auto
    then have m: "?k mod ?B < ?B" by simp
    have "concat (map (map snd) (policy_draws c pa zs n os)) ! (?k div ?B * ?B + ?k mod ?B)
          = map (map snd) (policy_draws c pa zs n os) ! (?k div ?B) ! (?k mod ?B)"
      using d m by (intro concat_nth_uniform) (auto simp: policy_draws_length)
    moreover have "length (policy_draws c pa zs n os ! (?k div ?B)) = ?B"
      using d by (simp add: policy_draws_def actor_action_log_prob_def)
    ultimately show ?thesis
      using d m by (simp add: policy_draws_nth policy_draws_length(1))
  qed
  then show ?thesis
    by (simp add: cat_log_probs_def view2_def)
qed

text \<open>
  The two layouts on two draws of a batch of two rows (\<open>a i b\<close>, \<open>l i b\<close>: action and
  log-probability of draw \<open>i\<close> at row \<open>b\<close>): row 0 of the actions holds draw 0 and draw 1 of
  row 0, row 0 of the log-probabilities holds draw 0 of row 0 and of row 1.
\<close>

lemma cat_layouts:
  "cat_policy_actions [[(a00, l00), (a01, l01)], [(a10, l10), (a11, l11)]] 2
     = [[a00, a10], [a01, a11]]
   \<and> cat_log_probs [[(a00, l00), (a01, l01)], [(a10, l10), (a11, l11)]] 2 2
     = [[l00, l01], [l10, l11]]"
  by (simp add: cat_policy_actions_def cat_log_probs_def view2_def map_upt_2)

lemma policy_values_eq:
  assumes "q_networks c = [q]"
  shows "policy_values c pc os n
           (map (\<lambda>b. map (\<lambda>i. f b i) [0..<n]) [0..<length os])
         = map (\<lambda>b. map (\<lambda>i. q pc (os ! b) (f b i)) [0..<n]) [0..<length os]"
proof -
  let ?acts = "concat (map (\<lambda>b. map (\<lambda>i. f b i) [0..<n]) [0..<length os])"
  have la: "length ?acts = length os * n"
    by (subst length_concat_uniform [where n = n]) auto
  have "map2 (q pc) (flat_obs_t os n) ?acts ! (b * n + i) = q pc (os ! b) (f b i)"
    if "b < length os" "i < n" for b i
  proof -
    have "?acts ! (b * n + i) = f b i"
      using that by (subst concat_nth_uniform [where n = n]) auto
    then show ?thesis
      using that flat_index_less [OF that] by (simp add: la length_flat_obs_t flat_obs_t_nth)
  qed
  then show ?thesis
    using assms by (simp add: policy_values_def view2_def critic_forward_def)
qed

lemma random_values_eq:
  assumes "q_networks c = [q]"
  shows "random_values c pc os n ra
         = map (\<lambda>b. map (\<lambda>i. q pc (os ! b) (ra (b * n + i))) [0..<n]) [0..<length os]"
proof -
  have "map2 (q pc) (flat_obs_t os n) (map ra [0..<length os * n]) ! (b * n + i)
        = q pc (os ! b) (ra (b * n + i))"
    if "b < length os" "i < n" for b i
    using that flat_index_less [OF that] by (simp add: length_flat_obs_t flat_obs_t_nth)
  then show ?thesis
    using assms by (simp add: random_values_def view2_def critic_forward_def)
qed

lemma tensor_max_Max: "xs \<noteq> [] \<Longrightarrow> tensor_max xs = Inr (Max (set xs))"
proof (cases xs)
  case Nil
  assume "xs \<noteq> []"
  with Nil show ?thesis by simp
next
  case (Cons x ys)
  then show ?thesis
    using Max.set_eq_fold [of x ys] by (simp add: tensor_max_def)
qed

lemma set_concat_grid:
  "set (concat (map (\<lambda>b. map (\<lambda>i. g b i) [0..<n]) [0..<B])) = (\<lambda>(b, i). g b i) ` ({..<B} \<times> {..<n})"
proof -
  have "set (concat (map (\<lambda>b. map (\<lambda>i. g b i) [0..<n]) [0..<B])) = (\<Union>b\<in>{..<B}. g b ` {..<n})"
    by (simp add: atLeast0LessThan)
  also have "\<dots> = (\<lambda>(b, i). g b i) ` ({..<B} \<times> {..<n})"
    by (auto simp: image_iff)
  finally show ?thesis .
qed

lemma tensor_max_grid:
  assumes "0 < B" "0 < n"
  shows "tensor_max (concat (map (\<lambda>b. map (\<lambda>i. g b i) [0..<n]) [0..<B]))
         = Inr (Max ((\<lambda>(b, i). g b i) ` ({..<B} \<times> {..<n})))"
proof -
  let ?xs = "concat (map (\<lambda>b. map (\<lambda>i. g b i) [0..<n]) [0..<B])"
  have "{..<B} \<times> {..<n} \<noteq> {}" using assms by auto
  then have "set ?xs \<noteq> {}" unfolding set_concat_grid by simp
  then have "?xs \<noteq> []" by auto
  then have "tensor_max ?xs = Inr (Max (set ?xs))" by (rule tensor_max_Max)
  then show ?thesis unfolding set_concat_grid .
qed

lemma cql_base_grid:
  assumes "0 < B" "0 < n"
  shows "cql_base (map (\<lambda>b. map (\<lambda>i. pv b i) [0..<n]) [0..<B])
                  (map (\<lambda>b. map (\<lambda>i. rv b i) [0..<n]) [0..<B])
         = Inr (Max ((\<lambda>(b, i). pv b i) ` ({..<B} \<times> {..<n}) \<union> (\<lambda>(b, i). rv b i) ` ({..<B} \<times> {..<n})))"
proof -
  have ne: "{..<B} \<times> {..<n} \<noteq> {}" using assms by auto
  have "max (Max ((\<lambda>(b, i). pv b i) ` ({..<B} \<times> {..<n}))) (Max ((\<lambda>(b, i). rv b i) ` ({..<B} \<times> {..<n})))
        = Max ((\<lambda>(b, i). pv b i) ` ({..<B} \<times> {..<n}) \<union> (\<lambda>(b, i). rv b i) ` ({..<B} \<times> {..<n}))"
    using ne by (intro Max_Un [symmetric]) auto
  then show ?thesis
    unfolding cql_base_def tensor_max_grid [OF assms] by simp
qed


lemma data_values_eq:
  assumes "q_networks c = [q]"
  shows "critic_forward c pc (observations rd) (actions rd) ! 0
         = map (\<lambda>b. q pc (obs (rd ! b)) (act (rd ! b))) [0..<length rd]"
  using assms
  by (intro nth_equalityI) (simp_all add: critic_forward_def observations_def actions_def)

lemma mean_const_mult: "mean (map (\<lambda>x. k * f x) xs) = k * mean (map f xs)"
  by (simp add: mean_def sum_list_const_mult)



lemma compute_conservative_loss_grid:
  fixes c :: "('pa, 'pc, 'o, 'a, 'z, 'opt) collab"
  assumes q: "q_networks c = [q]" and B: "rd \<noteq> []" and n: "0 < n"
  shows "compute_conservative_loss c pa pc la thr n zs ra rd
    = Inr (conservative_loss_value
        (Max ((\<lambda>(b, i). q pc (observations rd ! b)
                           (fst (action_log_prob c pa (zs i b) (observations rd ! b))))
                ` ({..<length rd} \<times> {..<n})
              \<union> (\<lambda>(b, i). q pc (observations rd ! b) (ra (b * n + i)))
                ` ({..<length rd} \<times> {..<n})))
        (map (\<lambda>b. map (\<lambda>i. q pc (observations rd ! b)
                           (fst (action_log_prob c pa (zs i b) (observations rd ! b)))) [0..<n])
           [0..<length rd])
        (map (\<lambda>b. map (\<lambda>i. snd (action_log_prob c pa
                         (zs ((b * n + i) div length rd) ((b * n + i) mod length rd))
                         (observations rd ! ((b * n + i) mod length rd)))) [0..<n])
           [0..<length rd])
        (map (\<lambda>b. map (\<lambda>i. q pc (observations rd ! b) (ra (b * n + i))) [0..<n])
           [0..<length rd])
        (map (\<lambda>b. q pc (obs (rd ! b)) (act (rd ! b))) [0..<length rd])
        thr la)"
proof -
  have l: "length (observations rd) = length rd" by (simp add: observations_def)
  have B': "0 < length (observations rd)" using B by (simp add: l)
  have nc: "n_critics c = 1" by (simp add: n_critics_def q)
  show ?thesis
    apply (simp only: compute_conservative_loss_def conservative_base_def
        conservative_objective_def Let_def)
    apply (simp only: cat_policy_actions_eq cat_log_probs_eq)
    apply (simp only: policy_values_eq [OF q] random_values_eq [OF q] data_values_eq [OF q])
    apply (simp only: cql_base_grid [OF B' n])
    using nc n apply (simp add: l)
    done
qed




text \<open>
  C3. With an ensemble of \<open>n_critics \<noteq> 1\<close> critics the conservative loss raises
  \<^verbatim>\<open>AssertionError\<close> and returns no value, whatever its other arguments; with exactly one
  critic it never raises \<^verbatim>\<open>AssertionError\<close>.
\<close>

theorem conservative_loss_assertion:
  "(n_critics c \<noteq> 1 \<longrightarrow>
      compute_conservative_loss c pa pc la thr n zs ra rd = Inl AssertionError)
   \<and> (n_critics c = 1 \<longrightarrow>
      compute_conservative_loss c pa pc la thr n zs ra rd \<noteq> Inl AssertionError)"
  by (auto simp: compute_conservative_loss_def conservative_base_def cql_base_def
      tensor_max_def Let_def split: sum.splits if_splits)

text \<open>The theorem at two critics and at one critic.\<close>

theorem conservative_loss_assertion_witness:
  "n_critics (stub_collab [5, 5] 1) \<noteq> 1
   \<and> compute_conservative_loss (stub_collab [5, 5] 1) () () 0 10 2 no_noise2 no_noise scenario_batch
       = Inl AssertionError
   \<and> n_critics (stub_collab [5] 1) = 1
   \<and> compute_conservative_loss (stub_collab [5] 1) () () 0 10 2 no_noise2 no_noise scenario_batch
       \<noteq> Inl AssertionError"
  using conservative_loss_assertion [of "stub_collab [5, 5] 1" "()" "()" 0 10 2 no_noise2 no_noise scenario_batch]
    conservative_loss_assertion [of "stub_collab [5] 1" "()" "()" 0 10 2 no_noise2 no_noise scenario_batch]
  by (simp add: stub_collab_def n_critics_def)

subsection \<open>The stages of a gradient step of \<^verbatim>\<open>train\<close>\<close>

lemma train_step_stages:
  assumes "train_step c i inp s = Inr (s', lg)"
  obtains e l s1 cl s2 al s3 s4 b where
    "train_ent_coef c inp s = ((e, l), s1)"
    "train_critic c inp e s1 = Inr (cl, s2)"
    "train_actor c inp e s2 = Inr (al, s3)"
    "(if use_cql s3 then update_alpha c inp s3 else Inr s3) = Inr s4"
    "train_target_update c i s4 = Inr (s', b)"
    "lg = \<lparr>ent_coef_loss_item = l, ent_coef_item = e, critic_loss_item = cl,
            actor_loss_item = al, polyak_updated = b\<rparr>"
  using assms
  by (auto simp: train_step_def split: prod.splits sum.splits)

lemma train_ent_coef_state:
  assumes "train_ent_coef c inp s = ((e, l), s1)"
  shows "s1 = s\<lparr>replay_buffer_ent_coef := e, log_ent_coef := log_ent_coef s1,
                 ent_coef_optimizer := ent_coef_optimizer s1\<rparr>"
  using assms
  by (auto simp: train_ent_coef_def Let_def split: option.splits prod.splits)

lemma train_critic_state:
  assumes "train_critic c inp e s1 = Inr (cl, s2)"
  shows "s2 = s1\<lparr>critic := critic s2\<rparr>"
  using assms
  by (auto simp: train_critic_def Let_def split: sum.splits if_splits)

lemma train_actor_state:
  assumes "train_actor c inp e s2 = Inr (al, s3)"
  shows "s3 = s2\<lparr>actor := actor s3\<rparr>"
  using assms
  by (auto simp: train_actor_def Let_def split: sum.splits)

lemma update_alpha_state:
  assumes "(if use_cql s3 then update_alpha c inp s3 else Inr s3) = Inr s4"
  shows "s4 = s3\<lparr>log_alpha := log_alpha s4, alpha_optimizer := alpha_optimizer s4\<rparr>"
  using assms
  by (auto simp: update_alpha_def Let_def split: sum.splits prod.splits if_splits)

lemma train_target_update_state:
  assumes "train_target_update c i s4 = Inr (s', b)"
  shows "s' = s4\<lparr>critic_target := critic_target s'\<rparr>"
    and "target_update_interval s4 \<noteq> 0"
    and "b = (int i mod target_update_interval s4 = 0)"
    and "critic_target s' = (if b then polyak_update c (critic s4) (critic_target s4) (tau s4)
                             else critic_target s4)"
  using assms
  by (auto simp: train_target_update_def split: if_splits)

lemma train_step_hyper:
  assumes "train_step c i inp s = Inr (s', lg)"
  shows "target_update_interval s' = target_update_interval s"
    and "use_cql s' = use_cql s"
    and "n_action_samples s' = n_action_samples s"
    and "alpha_threshold s' = alpha_threshold s"
    and "gamma s' = gamma s"
    and "tau s' = tau s"
    and "target_entropy s' = target_entropy s"
    and "ent_coef_tensor s' = ent_coef_tensor s"
    and "n_updates s' = n_updates s"
proof -
  from assms obtain e l s1 cl s2 al s3 s4 b where st:
    "train_ent_coef c inp s = ((e, l), s1)"
    "train_critic c inp e s1 = Inr (cl, s2)"
    "train_actor c inp e s2 = Inr (al, s3)"
    "(if use_cql s3 then update_alpha c inp s3 else Inr s3) = Inr s4"
    "train_target_update c i s4 = Inr (s', b)"
    by (rule train_step_stages)
  note eqs = train_target_update_state(1) [OF st(5)] update_alpha_state [OF st(4)]
    train_actor_state [OF st(3)] train_critic_state [OF st(2)] train_ent_coef_state [OF st(1)]
  show "target_update_interval s' = target_update_interval s"
    using eqs [THEN arg_cong [where f = target_update_interval]] by simp
  show "use_cql s' = use_cql s"
    using eqs [THEN arg_cong [where f = use_cql]] by simp
  show "n_action_samples s' = n_action_samples s"
    using eqs [THEN arg_cong [where f = n_action_samples]] by simp
  show "alpha_threshold s' = alpha_threshold s"
    using eqs [THEN arg_cong [where f = alpha_threshold]] by simp
  show "gamma s' = gamma s"
    using eqs [THEN arg_cong [where f = gamma]] by simp
  show "tau s' = tau s"
    using eqs [THEN arg_cong [where f = tau]] by simp
  show "target_entropy s' = target_entropy s"
    using eqs [THEN arg_cong [where f = target_entropy]] by simp
  show "ent_coef_tensor s' = ent_coef_tensor s"
    using eqs [THEN arg_cong [where f = ent_coef_tensor]] by simp
  show "n_updates s' = n_updates s"
    using eqs [THEN arg_cong [where f = n_updates]] by simp
qed

lemma train_step_sync:
  assumes "train_step c i inp s = Inr (s', lg)"
  shows "target_update_interval s \<noteq> 0"
    and "polyak_updated lg = (int i mod target_update_interval s = 0)"
    and "critic_target s' = (if polyak_updated lg
                             then polyak_update c (critic s') (critic_target s) (tau s)
                             else critic_target s)"
proof -
  from assms obtain e l s1 cl s2 al s3 s4 b where st:
    "train_ent_coef c inp s = ((e, l), s1)"
    "train_critic c inp e s1 = Inr (cl, s2)"
    "train_actor c inp e s2 = Inr (al, s3)"
    "(if use_cql s3 then update_alpha c inp s3 else Inr s3) = Inr s4"
    "train_target_update c i s4 = Inr (s', b)"
    and lg: "lg = \<lparr>ent_coef_loss_item = l, ent_coef_item = e, critic_loss_item = cl,
            actor_loss_item = al, polyak_updated = b\<rparr>"
    by (rule train_step_stages)
  note eqs = update_alpha_state [OF st(4)]
    train_actor_state [OF st(3)] train_critic_state [OF st(2)] train_ent_coef_state [OF st(1)]
  note tu = train_target_update_state [OF st(5)]
  have i: "target_update_interval s4 = target_update_interval s"
    using eqs [THEN arg_cong [where f = target_update_interval]] by simp
  have t: "tau s4 = tau s"
    using eqs [THEN arg_cong [where f = tau]] by simp
  have ct: "critic_target s4 = critic_target s"
    using eqs [THEN arg_cong [where f = critic_target]] by simp
  have cr: "critic s' = critic s4"
    using tu(1) [THEN arg_cong [where f = critic]] by simp
  show "target_update_interval s \<noteq> 0" using tu(2) i by simp
  show "polyak_updated lg = (int i mod target_update_interval s = 0)"
    using tu(3) i lg by simp
  show "critic_target s' = (if polyak_updated lg
                             then polyak_update c (critic s') (critic_target s) (tau s)
                             else critic_target s)"
    using tu(4) lg by (simp add: t ct cr)
qed

lemma train_steps_sync:
  assumes "train_steps c inps js s = Inr (s', logs)"
  shows "length logs = length js
         \<and> target_update_interval s' = target_update_interval s
         \<and> (\<forall>k<length js. polyak_updated (logs ! k)
                = (int (js ! k) mod target_update_interval s = 0))"
  using assms
proof (induction js arbitrary: s logs)
  case Nil
  then show ?case by simp
next
  case (Cons j js)
  from Cons.prems obtain s1 lg lgs where
    1: "train_step c j (inps j) s = Inr (s1, lg)" and
    2: "train_steps c inps js s1 = Inr (s', lgs)" and
    3: "logs = lg # lgs"
    by (auto split: sum.splits prod.splits)
  note ih = Cons.IH [OF 2]
  note hy = train_step_hyper(1) [OF 1] and sy = train_step_sync(2) [OF 1]
  show ?case
    using ih hy sy by (auto simp: 3 nth_Cons split: nat.splits)
qed

lemma train_q_backup_succeeds:
  assumes "q_networks c \<noteq> []"
  shows "\<exists>qb. train_q_backup c pa pct g e z rd = Inr qb"
  using assms
  by (simp add: train_q_backup_def Let_def cat_dim1_forward actor_action_log_prob_def
      next_observations_def)

lemma actor_loss_succeeds:
  assumes "q_networks c \<noteq> []"
  shows "\<exists>v. actor_loss c pc e os z pa = Inr v"
  using assms
  by (simp add: actor_loss_def Let_def cat_dim1_forward actor_action_log_prob_def)

lemma conservative_base_succeeds:
  assumes "n_critics c = 1" "0 < n" "rd \<noteq> []"
  shows "\<exists>b. conservative_base c pa pc n zs ra rd = Inr b"
proof -
  from assms(1) obtain q where q: "q_networks c = [q]"
    by (cases "q_networks c") (auto simp: n_critics_def)
  have "compute_conservative_loss c pa pc 0 0 n zs ra rd \<noteq> Inl e" for e
    using compute_conservative_loss_grid [OF q assms(3,2), of pa pc 0 0 zs ra] by simp
  then show ?thesis
    by (cases "conservative_base c pa pc n zs ra rd") (auto simp: compute_conservative_loss_def)
qed

lemma train_step_succeeds:
  assumes "target_update_interval s \<noteq> 0" "q_networks c \<noteq> []"
    and "use_cql s \<longrightarrow> n_critics c = 1 \<and> 0 < n_action_samples s \<and> replay_data inp \<noteq> []"
  shows "\<exists>s' lg. train_step c i inp s = Inr (s', lg)"
proof -
  obtain e l s1 where 1: "train_ent_coef c inp s = ((e, l), s1)"
    by (metis surj_pair)
  note e1 = train_ent_coef_state [OF 1]
  have u1: "use_cql s1 = use_cql s" "n_action_samples s1 = n_action_samples s"
    "target_update_interval s1 = target_update_interval s"
    using e1 [THEN arg_cong [where f = use_cql]] e1 [THEN arg_cong [where f = n_action_samples]]
      e1 [THEN arg_cong [where f = target_update_interval]] by simp_all
  obtain qb where qb: "train_q_backup c (actor s1) (critic_target s1) (gamma s1) e (noise_next inp)
      (replay_data inp) = Inr qb"
    using train_q_backup_succeeds [OF assms(2)] by blast
  have "\<exists>cql. (if use_cql s1
          then map_sum id Some (conservative_base c (actor s1) (critic s1) (n_action_samples s1)
                 (noise_cql inp) (random_cql inp) (replay_data inp))
          else Inr None) = Inr cql"
  proof (cases "use_cql s1")
    case True
    then have ok: "n_critics c = 1" "0 < n_action_samples s1" "replay_data inp \<noteq> []"
      using assms(3) u1 by simp_all
    obtain b where "conservative_base c (actor s1) (critic s1) (n_action_samples s1)
                 (noise_cql inp) (random_cql inp) (replay_data inp) = Inr b"
      using conservative_base_succeeds [OF ok] by blast
    with True show ?thesis by simp
  next
    case False
    then show ?thesis by simp
  qed
  then obtain cl s2 where 2: "train_critic c inp e s1 = Inr (cl, s2)"
    using qb by (auto simp: train_critic_def Let_def)
  note e2 = train_critic_state [OF 2]
  have u2: "use_cql s2 = use_cql s" "n_action_samples s2 = n_action_samples s"
    "target_update_interval s2 = target_update_interval s"
    using e2 [THEN arg_cong [where f = use_cql]] e2 [THEN arg_cong [where f = n_action_samples]]
      e2 [THEN arg_cong [where f = target_update_interval]] u1 by simp_all
  obtain al s3 where 3: "train_actor c inp e s2 = Inr (al, s3)"
    using actor_loss_succeeds [OF assms(2), of "critic s2" e "observations (replay_data inp)"
        "noise_pi inp" "actor s2"]
    by (auto simp: train_actor_def Let_def)
  note e3 = train_actor_state [OF 3]
  have u3: "use_cql s3 = use_cql s" "n_action_samples s3 = n_action_samples s"
    "target_update_interval s3 = target_update_interval s"
    using e3 [THEN arg_cong [where f = use_cql]] e3 [THEN arg_cong [where f = n_action_samples]]
      e3 [THEN arg_cong [where f = target_update_interval]] u2 by simp_all
  have "\<exists>s4. (if use_cql s3 then update_alpha c inp s3 else Inr s3) = Inr s4"
  proof (cases "use_cql s3")
    case True
    then have ok: "n_critics c = 1" "0 < n_action_samples s3" "replay_data inp \<noteq> []"
      using assms(3) u3 by simp_all
    obtain b where "conservative_base c (actor s3) (critic s3) (n_action_samples s3)
                 (noise_alpha inp) (random_alpha inp) (replay_data inp) = Inr b"
      using conservative_base_succeeds [OF ok] by blast
    with True show ?thesis
      by (simp add: update_alpha_def Let_def split: prod.splits)
  next
    case False
    then show ?thesis by simp
  qed
  then obtain s4 where 4: "(if use_cql s3 then update_alpha c inp s3 else Inr s3) = Inr s4" ..
  note e4 = update_alpha_state [OF 4]
  have u4: "target_update_interval s4 = target_update_interval s"
    using e4 [THEN arg_cong [where f = target_update_interval]] u3 by simp
  have "\<exists>s5 b. train_target_update c i s4 = Inr (s5, b)"
    using assms(1) u4 by (auto simp: train_target_update_def)
  then obtain s5 b where 5: "train_target_update c i s4 = Inr (s5, b)" by blast
  show ?thesis
    by (simp add: train_step_def 1 2 3 4 5)
qed

lemma train_steps_succeeds:
  assumes "target_update_interval s \<noteq> 0" "q_networks c \<noteq> []"
    and "use_cql s \<longrightarrow> n_critics c = 1 \<and> 0 < n_action_samples s \<and> (\<forall>i. replay_data (inps i) \<noteq> [])"
  shows "\<exists>s' logs. train_steps c inps js s = Inr (s', logs)"
  using assms(1,3)
proof (induction js arbitrary: s)
  case Nil
  then show ?case by simp
next
  case (Cons j js)
  obtain s1 lg where 1: "train_step c j (inps j) s = Inr (s1, lg)"
    using train_step_succeeds [OF Cons.prems(1) assms(2), of "inps j" j] Cons.prems(2) by blast
  note hy = train_step_hyper [OF 1]
  have "\<exists>s' logs. train_steps c inps js s1 = Inr (s', logs)"
    using Cons.prems by (intro Cons.IH) (simp_all add: hy)
  then show ?case
    by (auto simp: 1)
qed

subsection \<open>Target synchronisation\<close>

text \<open>
  C7. A call of \<^verbatim>\<open>train\<close> with \<open>G\<close> gradient steps, a non-zero \<open>target_update_interval\<close>, at
  least one critic and (under \<open>use_cql\<close>) a well-formed conservative loss completes, and its
  step \<open>i\<close> calls \<^verbatim>\<open>polyak_update\<close> exactly when \<open>target_update_interval\<close> divides \<open>i\<close>; with
  interval 2 and 5 steps these are the steps 0, 2 and 4, three calls. A step that calls it
  replaces the target by \<open>polyak_update critic critic_target tau\<close>, any other step leaves the
  target unchanged.
\<close>

theorem polyak_schedule:
  fixes c :: "('pa, 'pc, 'o, 'a, 'z, 'opt) collab"
  assumes "target_update_interval s \<noteq> 0" and "q_networks c \<noteq> []"
    and "use_cql s \<longrightarrow> n_critics c = 1 \<and> 0 < n_action_samples s \<and> (\<forall>i. replay_data (inps i) \<noteq> [])"
  shows "(\<exists>s' logs. train c G inps s = Inr (s', logs)
           \<and> length logs = nat G
           \<and> (\<forall>i<nat G. polyak_updated (logs ! i) \<longleftrightarrow> target_update_interval s dvd int i)
           \<and> (target_update_interval s = 2 \<and> G = 5 \<longrightarrow>
                map polyak_updated logs = [True, False, True, False, True]
                \<and> length (filter polyak_updated logs) = 3))
         \<and> (\<forall>i inp s1 s2 lg. train_step c i inp s1 = Inr (s2, lg) \<longrightarrow>
                critic_target s2
                  = (if polyak_updated lg
                     then polyak_update c (critic s2) (critic_target s1) (tau s1)
                     else critic_target s1))"
proof -
  let ?s0 = "s\<lparr>actor := update_lr_actor c (actor s),
                critic := update_lr_critic c (critic s),
                ent_coef_optimizer := map_option (update_lr c) (ent_coef_optimizer s),
                alpha_optimizer :=
                  (if use_cql s then update_lr c (alpha_optimizer s) else alpha_optimizer s)\<rparr>"
  have "\<exists>s1 logs. train_steps c inps [0..<nat G] ?s0 = Inr (s1, logs)"
    using assms by (intro train_steps_succeeds) simp_all
  then obtain s1 logs where 1: "train_steps c inps [0..<nat G] ?s0 = Inr (s1, logs)" by blast
  from train_steps_sync [OF 1]
  have len: "length logs = nat G"
    and fl: "\<forall>k<nat G. polyak_updated (logs ! k) = (int k mod target_update_interval s = 0)"
    by simp_all
  have sched: "\<forall>i<nat G. polyak_updated (logs ! i) \<longleftrightarrow> target_update_interval s dvd int i"
    using fl by (simp add: dvd_eq_mod_eq_0)
  have five: "map polyak_updated logs = [True, False, True, False, True]
                \<and> length (filter polyak_updated logs) = 3"
    if "target_update_interval s = 2 \<and> G = 5"
  proof -
    have l5: "length logs = 5" using len that by simp
    have "map polyak_updated logs = map (\<lambda>k. polyak_updated (logs ! k)) [0..<5]"
      using l5 by (intro nth_equalityI) simp_all
    also have "\<dots> = map (\<lambda>k. int k mod 2 = 0) [0..<5]"
      using fl that by (intro map_cong) simp_all
    also have "\<dots> = [True, False, True, False, True]"
      by (simp add: upt_rec)
    finally have m: "map polyak_updated logs = [True, False, True, False, True]" .
    have "length (filter polyak_updated logs) = length (filter id (map polyak_updated logs))"
      by (simp add: filter_map o_def)
    then show ?thesis using m by simp
  qed
  have run: "\<exists>s' logs. train c G inps s = Inr (s', logs)
           \<and> length logs = nat G
           \<and> (\<forall>i<nat G. polyak_updated (logs ! i) \<longleftrightarrow> target_update_interval s dvd int i)
           \<and> (target_update_interval s = 2 \<and> G = 5 \<longrightarrow>
                map polyak_updated logs = [True, False, True, False, True]
                \<and> length (filter polyak_updated logs) = 3)"
    using 1 len sched five by (auto simp: train_def Let_def)
  have each: "\<forall>i inp s1 s2 lg. train_step c i inp s1 = Inr (s2, lg) \<longrightarrow>
                critic_target s2
                  = (if polyak_updated lg
                     then polyak_update c (critic s2) (critic_target s1) (tau s1)
                     else critic_target s1)"
    using train_step_sync(3) by blast
  from run each show ?thesis ..
qed

text \<open>The theorem on the stub collaborators, interval 2 and five steps.\<close>

theorem polyak_schedule_witness:
  "target_update_interval stub_state \<noteq> 0 \<and> q_networks (counting_collab [5, 5] 1) \<noteq> []
   \<and> use_cql stub_state = False
   \<and> (\<exists>s' logs. train (counting_collab [5, 5] 1) 5 stub_inputs stub_state = Inr (s', logs)
         \<and> map polyak_updated logs = [True, False, True, False, True]
         \<and> length (filter polyak_updated logs) = 3)"
  using polyak_schedule [of stub_state "counting_collab [5, 5] 1" stub_inputs 5]
  by (auto simp: stub_state_def counting_collab_def)

subsection \<open>Entropy coefficient\<close>

lemma ent_coef_objective_linear:
  "ent_coef_objective lps te x = x * (- mean (map (\<lambda>lp. lp + te) lps))"
  by (simp add: ent_coef_objective_def mean_const_mult)

lemma ent_coef_objective_deriv:
  "(ent_coef_objective lps te has_real_derivative - mean (map (\<lambda>lp. lp + te) lps)) (at x)"
proof -
  have "((\<lambda>x. x * (- mean (map (\<lambda>lp. lp + te) lps))) has_real_derivative
          1 * (- mean (map (\<lambda>lp. lp + te) lps))) (at x)"
    by (intro DERIV_cmult_right DERIV_ident)
  then show ?thesis
    by (simp add: ent_coef_objective_linear [abs_def])
qed

text \<open>
  C5. In auto mode (\<open>ent_coef_optimizer s = Some opt\<close>) a completed gradient step of
  \<^verbatim>\<open>train\<close> uses \<open>coef = exp (log_ent_coef s)\<close>, the value before the step: it is the
  coefficient logged and written to the replay buffer, the one in the bootstrap target of
  the critic loss, and the one in the actor loss, while \<open>log_ent_coef\<close> itself is replaced
  by the result of the coefficient's optimizer. The coefficient loss is
  \<open>- mean (log_ent_coef * (log_prob + target_entropy))\<close>; the optimizer receives it as a
  function of \<open>log_ent_coef\<close> alone, with derivative \<open>- mean (log_prob + target_entropy)\<close>.
\<close>

theorem train_step_ent_coef_lag:
  fixes c :: "('pa, 'pc, 'o, 'a, 'z, 'opt) collab" and s :: "('pa, 'pc, 'opt) sac"
    and inp :: "('o, 'a, 'z) step_input"
  defines "rd \<equiv> replay_data inp"
  defines "log_prob \<equiv> map snd (actor_action_log_prob c (actor s) (noise_pi inp) (observations rd))"
    and "coef \<equiv> exp (log_ent_coef s)"
  assumes auto_mode: "ent_coef_optimizer s = Some opt"
    and step: "train_step c i inp s = Inr (s', lg)"
  shows "ent_coef_item lg = coef
    \<and> replay_buffer_ent_coef s' = coef
    \<and> ent_coef_loss_item lg
        = Some (- mean (map (\<lambda>lp. log_ent_coef s * (lp + target_entropy s)) log_prob))
    \<and> (ent_coef_optimizer s' = Some opt' \<longrightarrow>
         (opt', log_ent_coef s')
           = adam_step c opt (log_ent_coef s)
               (\<lambda>x. - mean (map (\<lambda>lp. x * (lp + target_entropy s)) log_prob)))
    \<and> ent_coef_optimizer s' \<noteq> None
    \<and> (\<forall>x. ((\<lambda>x. - mean (map (\<lambda>lp. x * (lp + target_entropy s)) log_prob))
             has_real_derivative - mean (map (\<lambda>lp. lp + target_entropy s) log_prob)) (at x))
    \<and> (\<exists>q_backup cql.
          train_q_backup c (actor s) (critic_target s) (gamma s) coef (noise_next inp) rd
            = Inr q_backup
          \<and> critic_loss_item lg
              = critic_td_loss (critic_forward c (critic s) (observations rd) (actions rd)) q_backup
          \<and> critic s' = critic_optimizer_step c (critic s) (critic_objective c inp s q_backup cql))
    \<and> actor_loss c (critic s') coef (observations rd) (noise_pi inp) (actor s)
        = Inr (actor_loss_item lg)
    \<and> actor s' = actor_optimizer_step c (actor s)
        (\<lambda>pa. loss_value (actor_loss c (critic s') coef (observations rd) (noise_pi inp) pa))"
proof -
  from step obtain e l s1 cl s2 al s3 s4 b where st:
    "train_ent_coef c inp s = ((e, l), s1)"
    "train_critic c inp e s1 = Inr (cl, s2)"
    "train_actor c inp e s2 = Inr (al, s3)"
    "(if use_cql s3 then update_alpha c inp s3 else Inr s3) = Inr s4"
    "train_target_update c i s4 = Inr (s', b)"
    and lg: "lg = \<lparr>ent_coef_loss_item = l, ent_coef_item = e, critic_loss_item = cl,
            actor_loss_item = al, polyak_updated = b\<rparr>"
    by (rule train_step_stages)
  obtain o1 x1 where ad: "adam_step c opt (log_ent_coef s)
      (ent_coef_objective log_prob (target_entropy s)) = (o1, x1)"
    by (metis surj_pair)
  have e: "e = coef"
    and l: "l = Some (ent_coef_objective log_prob (target_entropy s) (log_ent_coef s))"
    and s1: "s1 = s\<lparr>replay_buffer_ent_coef := coef, log_ent_coef := x1,
                     ent_coef_optimizer := Some o1\<rparr>"
    using st(1) auto_mode ad
    by (auto simp: train_ent_coef_def Let_def log_prob_def rd_def coef_def)
  have obj: "critic_objective c inp s1 = critic_objective c inp s"
    by (intro ext) (simp add: critic_objective_def s1 split: option.splits)
  obtain qb cql where qb: "train_q_backup c (actor s) (critic_target s) (gamma s) coef
        (noise_next inp) rd = Inr qb"
    and cl: "cl = critic_td_loss (critic_forward c (critic s) (observations rd) (actions rd)) qb"
    and s2: "s2 = s1\<lparr>critic := critic_optimizer_step c (critic s)
                                 (critic_objective c inp s qb cql)\<rparr>"
    using st(2) unfolding train_critic_def Let_def e obj rd_def [symmetric]
    by (auto simp: s1 split: sum.splits if_splits)
  have al: "actor_loss c (critic s2) coef (observations rd) (noise_pi inp) (actor s) = Inr al"
    and s3: "s3 = s2\<lparr>actor := actor_optimizer_step c (actor s)
        (\<lambda>pa. loss_value (actor_loss c (critic s2) coef (observations rd) (noise_pi inp) pa))\<rparr>"
    using st(3) unfolding train_actor_def Let_def e rd_def [symmetric]
    by (auto simp: s1 s2 split: sum.splits)
  note e4 = update_alpha_state [OF st(4)]
  note e5 = train_target_update_state(1) [OF st(5)]
  have c': "critic s' = critic s2"
    using e5 [THEN arg_cong [where f = critic]] e4 [THEN arg_cong [where f = critic]]
    by (simp add: s3)
  have a': "actor s' = actor s3"
    using e5 [THEN arg_cong [where f = actor]] e4 [THEN arg_cong [where f = actor]]
    by simp
  have r': "replay_buffer_ent_coef s' = coef"
    using e5 [THEN arg_cong [where f = replay_buffer_ent_coef]]
      e4 [THEN arg_cong [where f = replay_buffer_ent_coef]]
    by (simp add: s3 s2 s1)
  have x': "log_ent_coef s' = x1"
    using e5 [THEN arg_cong [where f = log_ent_coef]] e4 [THEN arg_cong [where f = log_ent_coef]]
    by (simp add: s3 s2 s1)
  have o': "ent_coef_optimizer s' = Some o1"
    using e5 [THEN arg_cong [where f = ent_coef_optimizer]]
      e4 [THEN arg_cong [where f = ent_coef_optimizer]]
    by (simp add: s3 s2 s1)
  have der: "\<forall>x. ((\<lambda>x. - mean (map (\<lambda>lp. x * (lp + target_entropy s)) log_prob))
             has_real_derivative - mean (map (\<lambda>lp. lp + target_entropy s) log_prob)) (at x)"
    using ent_coef_objective_deriv [of log_prob "target_entropy s"]
    by (simp add: ent_coef_objective_def [abs_def])
  have adam: "ent_coef_optimizer s' = Some opt' \<longrightarrow>
         (opt', log_ent_coef s')
           = adam_step c opt (log_ent_coef s)
               (\<lambda>x. - mean (map (\<lambda>lp. x * (lp + target_entropy s)) log_prob))"
    using ad by (simp add: o' x' ent_coef_objective_def [abs_def])
  have crit: "\<exists>q_backup cql.
          train_q_backup c (actor s) (critic_target s) (gamma s) coef (noise_next inp) rd
            = Inr q_backup
          \<and> critic_loss_item lg
              = critic_td_loss (critic_forward c (critic s) (observations rd) (actions rd)) q_backup
          \<and> critic s' = critic_optimizer_step c (critic s) (critic_objective c inp s q_backup cql)"
    using qb cl by (intro exI [of _ qb] exI [of _ cql]) (simp add: lg c' s2)
  show ?thesis
    apply (intro conjI)
            apply (simp add: lg e)
           apply (rule r')
          apply (simp add: lg l ent_coef_objective_def)
         apply (rule adam)
        apply (simp add: o')
       apply (rule der)
      apply (rule crit)
     apply (simp add: lg c' al)
    apply (simp add: a' c' s3 s2)
    done
qed

text \<open>
  The theorem on the stub collaborators, whose optimizer lowers \<open>log_ent_coef\<close> from 0 to
  \<open>-1\<close>: the step still uses the coefficient \<open>exp 0 = 1\<close>.
\<close>

theorem train_step_ent_coef_lag_witness:
  "ent_coef_optimizer stub_state = Some 0
   \<and> (\<exists>s' lg. train_step (counting_collab [5, 5] 1) 0 stub_input stub_state = Inr (s', lg)
         \<and> ent_coef_item lg = 1 \<and> replay_buffer_ent_coef s' = 1
         \<and> ent_coef_loss_item lg = Some 0
         \<and> ent_coef_optimizer s' = Some 1 \<and> log_ent_coef s' = - 1)"
proof -
  have a: "ent_coef_optimizer stub_state = Some 0"
    by (simp add: stub_state_def)
  obtain s' lg where st: "train_step (counting_collab [5, 5] 1) 0 stub_input stub_state = Inr (s', lg)"
    using train_step_succeeds [of stub_state "counting_collab [5, 5] 1" stub_input 0]
    by (auto simp: stub_state_def counting_collab_def)
  obtain o' where o': "ent_coef_optimizer s' = Some o'"
    using train_step_ent_coef_lag [OF a st] by blast
  from train_step_ent_coef_lag [OF a st, of o'] o'
  have "ent_coef_item lg = 1 \<and> replay_buffer_ent_coef s' = 1
         \<and> ent_coef_loss_item lg = Some 0
         \<and> ent_coef_optimizer s' = Some 1 \<and> log_ent_coef s' = - 1"
    by (simp add: stub_state_def counting_collab_def mean_def o_def)
  with a st show ?thesis by blast
qed

subsection \<open>Pretraining\<close>

lemma qf_aggregate_adam:
  "qf_aggregate (c\<lparr>adam_step := f\<rparr>) pa pc red n zq rd js agg = qf_aggregate c pa pc red n zq rd js agg"
  by (induction js arbitrary: agg)
    (simp_all add: actor_action_log_prob_def critic_forward_def Let_def split: sum.splits)

lemma pretrain_step_adam:
  assumes "\<not> (0 < off_policy_update_freq args \<and> int i mod off_policy_update_freq args = 0)"
  shows "pretrain_step (c\<lparr>adam_step := f\<rparr>) args i inp s = pretrain_step c args i inp s"
proof -
  have q: "pretrain_q_backup (c\<lparr>adam_step := f\<rparr>) = pretrain_q_backup c"
    by (intro ext) (simp add: pretrain_q_backup_def actor_action_log_prob_def critic_forward_def)
  have "pretrain_advantage (c\<lparr>adam_step := f\<rparr>) = pretrain_advantage c"
    by (intro ext)
      (simp add: pretrain_advantage_def qf_aggregate_adam critic_forward_def
        cong: sum.case_cong)
  then have w: "pretrain_weight (c\<lparr>adam_step := f\<rparr>) = pretrain_weight c"
    by (intro ext) (simp add: pretrain_weight_def)
  have a: "pretrain_actor_loss (c\<lparr>adam_step := f\<rparr>) = pretrain_actor_loss c"
    by (intro ext) (simp add: pretrain_actor_loss_def)
  show ?thesis
    unfolding pretrain_step_def if_not_P [OF assms]
    by (simp add: q w a actor_action_log_prob_def critic_forward_def Let_def
        cong: sum.case_cong if_cong)
qed

lemma pretrain_step_frozen:
  assumes "\<not> (0 < off_policy_update_freq args \<and> int i mod off_policy_update_freq args = 0)"
    and "pretrain_step c args i inp s = Inr (s', lg)"
  shows "log_ent_coef s' = log_ent_coef s" and "ent_coef_optimizer s' = ent_coef_optimizer s"
  using assms
  by (auto simp: pretrain_step_def Let_def split: sum.splits if_splits)

lemma pretrain_steps_frozen:
  assumes "off_policy_update_freq args \<le> 0"
    and "pretrain_steps c args inps js s = Inr (s', lgs)"
  shows "log_ent_coef s' = log_ent_coef s \<and> ent_coef_optimizer s' = ent_coef_optimizer s"
  using assms(2)
proof (induction js arbitrary: s lgs)
  case Nil
  then show ?case by simp
next
  case (Cons j js)
  from Cons.prems obtain s1 lg lgs' where
    1: "pretrain_step c args j (inps j) s = Inr (s1, lg)" and
    2: "pretrain_steps c args inps js s1 = Inr (s', lgs')"
    by (auto split: sum.splits prod.splits)
  have n: "\<not> (0 < off_policy_update_freq args \<and> int j mod off_policy_update_freq args = 0)"
    using assms(1) by simp
  show ?case
    using Cons.IH [OF 2] pretrain_step_frozen [OF n 1] by simp
qed

text \<open>
  C9. A gradient step of \<^verbatim>\<open>pretrain\<close> that does not delegate to \<^verbatim>\<open>train\<close> does not depend
  on the coefficient's optimizer at all, and when it completes it leaves \<open>log_ent_coef\<close> and
  \<open>ent_coef_optimizer\<close> unchanged. With \<open>off_policy_update_freq \<le> 0\<close> a completed call of
  \<^verbatim>\<open>pretrain\<close> returns the \<open>log_ent_coef\<close> it started with, and the optimizer's state as
  the initial update of the learning rates left it.
\<close>

theorem pretrain_ent_coef_frozen:
  fixes c :: "('pa, 'pc, 'o, 'a, 'z, 'opt) collab"
  shows "(\<not> (0 < off_policy_update_freq args \<and> int i mod off_policy_update_freq args = 0) \<longrightarrow>
            pretrain_step (c\<lparr>adam_step := f\<rparr>) args i inp s = pretrain_step c args i inp s
            \<and> (pretrain_step c args i inp s = Inr (s', lg) \<longrightarrow>
                 log_ent_coef s' = log_ent_coef s
                 \<and> ent_coef_optimizer s' = ent_coef_optimizer s))
         \<and> (off_policy_update_freq args \<le> 0 \<and> pretrain c args G inps s = Inr (s2, lgs) \<longrightarrow>
              log_ent_coef s2 = log_ent_coef s
              \<and> ent_coef_optimizer s2 = map_option (update_lr c) (ent_coef_optimizer s))"
proof (intro conjI impI)
  assume n: "\<not> (0 < off_policy_update_freq args \<and> int i mod off_policy_update_freq args = 0)"
  then show "pretrain_step (c\<lparr>adam_step := f\<rparr>) args i inp s = pretrain_step c args i inp s"
    by (rule pretrain_step_adam)
  assume "pretrain_step c args i inp s = Inr (s', lg)"
  from pretrain_step_frozen [OF n this]
  show "log_ent_coef s' = log_ent_coef s" "ent_coef_optimizer s' = ent_coef_optimizer s" .
next
  assume a: "off_policy_update_freq args \<le> 0 \<and> pretrain c args G inps s = Inr (s2, lgs)"
  then have "pretrain_steps c args inps [0..<nat G]
       (s\<lparr>actor := update_lr_actor c (actor s),
          critic := update_lr_critic c (critic s),
          ent_coef_optimizer := map_option (update_lr c) (ent_coef_optimizer s)\<rparr>) = Inr (s2, lgs)"
    by (simp add: pretrain_def)
  from pretrain_steps_frozen [OF _ this] a
  show "log_ent_coef s2 = log_ent_coef s"
    "ent_coef_optimizer s2 = map_option (update_lr c) (ent_coef_optimizer s)"
    by simp_all
qed

lemma pretrain_actor_loss_scalar:
  "pretrain_actor_loss c (Scalar w) rd pa
   = mean (map (\<lambda>t. - evaluate_actions c pa (obs t) (act t) * w) rd)"
  by (simp add: pretrain_actor_loss_def observations_def actions_def zip_map_map
      zip_same_conv_map o_def)

text \<open>
  C8. Under strategy \<^verbatim>\<open>"bc"\<close> the regression weight is the scalar 1 whatever the critics, the
  draws and the batch are (no advantage enters it), and the actor loss is the mean of
  \<open>- log_prob\<close> of the batch's own actions, which is also the actor loss that a completed
  step of \<^verbatim>\<open>pretrain\<close> records.
\<close>

theorem pretrain_bc_weight:
  assumes "strategy args = ''bc''"
  shows "pretrain_weight c pa pc args zq rd = Inr (Scalar 1)
         \<and> pretrain_actor_loss c (Scalar 1) rd pa'
             = mean (map (\<lambda>t. - evaluate_actions c pa' (obs t) (act t)) rd)
         \<and> (\<forall>s' cl al. pretrain_step c args i inp s = Inr (s', Some (cl, al)) \<longrightarrow>
               al = mean (map (\<lambda>t. - evaluate_actions c (actor s) (obs t) (act t)) (replay_data inp)))"
proof -
  have w: "pretrain_weight c pa pc args zq rd = Inr (Scalar 1)" for pa pc zq rd
    using assms by (simp add: pretrain_weight_def)
  have "al = mean (map (\<lambda>t. - evaluate_actions c (actor s) (obs t) (act t)) (replay_data inp))"
    if "pretrain_step c args i inp s = Inr (s', Some (cl, al))" for s' cl al
    using that
    by (auto simp: pretrain_step_def Let_def w pretrain_actor_loss_scalar
        split: if_splits sum.splits prod.splits)
  then show ?thesis
    using w by (simp add: pretrain_actor_loss_scalar)
qed






lemma pretrain_q_backup_succeeds:
  assumes "q_networks c \<noteq> []"
  shows "\<exists>qb. pretrain_q_backup c pa pct g e z rd = Inr qb"
  using assms
  by (simp add: pretrain_q_backup_def Let_def cat_dim1_forward actor_action_log_prob_def
      next_observations_def)

lemma pretrain_step_succeeds_bc:
  assumes "\<not> (0 < off_policy_update_freq args \<and> int i mod off_policy_update_freq args = 0)"
    and "q_networks c \<noteq> []" and "strategy args = ''bc''"
    and "pretrain_target_update_interval args \<noteq> 0"
  shows "\<exists>s' cl al. pretrain_step c args i inp s = Inr (s', Some (cl, al))"
proof -
  let ?e = "case ent_coef_optimizer s of None \<Rightarrow> ent_coef_tensor s | Some opt \<Rightarrow> exp (log_ent_coef s)"
  obtain qb where qb: "pretrain_q_backup c (actor s) (critic_target s) (gamma s) ?e
       (noise_next inp) (replay_data inp) = Inr qb"
    using pretrain_q_backup_succeeds [OF assms(2)] by blast
  have w: "pretrain_weight c pa pc args zq rd = Inr (Scalar 1)" for pa pc zq rd
    using assms(3) by (simp add: pretrain_weight_def)
  show ?thesis
    unfolding pretrain_step_def if_not_P [OF assms(1)]
    using assms(4) by (simp add: Let_def qb w)
qed

text \<open>The theorem on a behaviour-cloning step of the stub collaborators in auto mode.\<close>

theorem pretrain_ent_coef_frozen_witness:
  "\<not> (0 < off_policy_update_freq (stub_args\<lparr>strategy := ''bc''\<rparr>)
       \<and> int 0 mod off_policy_update_freq (stub_args\<lparr>strategy := ''bc''\<rparr>) = 0)
   \<and> ent_coef_optimizer stub_state = Some 0
   \<and> (\<exists>s' lg. pretrain_step (counting_collab [5, 5] 1) (stub_args\<lparr>strategy := ''bc''\<rparr>) 0
                  stub_input stub_state = Inr (s', lg)
         \<and> log_ent_coef s' = 0 \<and> ent_coef_optimizer s' = Some 0)"
proof -
  let ?args = "stub_args\<lparr>strategy := ''bc''\<rparr>" and ?c = "counting_collab [5, 5] 1"
  have n: "\<not> (0 < off_policy_update_freq ?args \<and> int 0 mod off_policy_update_freq ?args = 0)"
    by (simp add: stub_args_def)
  obtain s' lg where st: "pretrain_step ?c ?args 0 stub_input stub_state = Inr (s', lg)"
    using pretrain_step_succeeds_bc [OF n, of ?c stub_input stub_state]
    by (auto simp: stub_args_def counting_collab_def)
  have "log_ent_coef s' = 0 \<and> ent_coef_optimizer s' = Some 0"
    using pretrain_ent_coef_frozen [where args = ?args and i = 0 and c = ?c and inp = stub_input
        and s = stub_state and s' = s' and lg = lg] n st
    by (simp add: stub_state_def)
  with n st show ?thesis
    by (auto simp: stub_state_def)
qed

text \<open>
  The theorem on an ensemble of three critics, where computing the advantage would raise
  \<^verbatim>\<open>TypeError\<close>.
\<close>

theorem pretrain_bc_weight_witness:
  "strategy (stub_args\<lparr>strategy := ''bc''\<rparr>) = ''bc''
   \<and> pretrain_weight (counting_collab [5, 5, 5] 1) () 0 (stub_args\<lparr>strategy := ''bc''\<rparr>)
        no_noise2 scenario_batch = Inr (Scalar 1)
   \<and> pretrain_advantage (counting_collab [5, 5, 5] 1) () 0 (stub_args\<lparr>strategy := ''bc''\<rparr>)
        no_noise2 scenario_batch = Inl TypeError
   \<and> pretrain_actor_loss (counting_collab [5, 5, 5] 1) (Scalar 1) scenario_batch () = - 1"
  using pretrain_bc_weight [where args = "stub_args\<lparr>strategy := ''bc''\<rparr>"
      and c = "counting_collab [5, 5, 5] 1" and pa = "()" and pc = 0 and zq = no_noise2
      and rd = scenario_batch and pa' = "()"]
  by (simp add: stub_args_def counting_collab_def scenario_batch_def mean_def
      pretrain_advantage_def critic_forward_def)


end
